theory Spec2Isabelle
  imports Main
begin

section \<open>Python values as the program sees them\<close>

text \<open>
  A Python \<open>str\<close> is a sequence of code points. It is modelled as a \<open>string\<close> whose
  characters are the code points below 256 (an Isabelle \<open>char\<close> holds eight bits), so
  \<open>CHR 0xB2\<close> is the one-character string U+00B2 and \<open>length\<close> counts code points.
  All literals of the program are ASCII.
\<close>

text \<open>\<open>str.isspace\<close> on one code point below 256: the characters \<open>str.strip()\<close> removes.\<close>

definition isspace_char :: "char \<Rightarrow> bool" where
  "isspace_char c = ((of_char c :: nat) \<in> {9, 10, 11, 12, 13, 28, 29, 30, 31, 32, 133, 160})"

text \<open>
  \<open>str.isdigit\<close> on one code point below 256: the decimal digits 0-9 and the three
  superscript digits U+00B2, U+00B3 and U+00B9 (Unicode Numeric_Type=Digit).
\<close>

definition isdigit_char :: "char \<Rightarrow> bool" where
  "isdigit_char c = (let n = (of_char c :: nat) in (48 \<le> n \<and> n \<le> 57) \<or> n = 178 \<or> n = 179 \<or> n = 185)"

text \<open>The decimal digits 0-9 (the only code points below 256 with \<open>str.isdecimal\<close>).\<close>

definition isdecimal_char :: "char \<Rightarrow> bool" where
  "isdecimal_char c = (let n = (of_char c :: nat) in 48 \<le> n \<and> n \<le> 57)"

text \<open>\<open>s.strip()\<close>: leading and trailing whitespace removed.\<close>

definition py_strip :: "string \<Rightarrow> string" where
  "py_strip s = rev (dropWhile isspace_char (rev (dropWhile isspace_char s)))"

text \<open>\<open>s.isdigit()\<close>: at least one character, and every character a digit.\<close>

definition py_isdigit :: "string \<Rightarrow> bool" where
  "py_isdigit s = (s \<noteq> [] \<and> list_all isdigit_char s)"

text \<open>The exceptions the program can raise and does not catch.\<close>

datatype pyerr = KeyError | TypeError | IndexError | AttributeError | UnicodeDecodeError

text \<open>
  What \<open>response.json()\<close> returns: \<open>None\<close>, \<open>bool\<close>, \<open>int\<close> (unbounded), \<open>float\<close>,
  \<open>str\<close>, \<open>list\<close> and \<open>dict\<close> (its items in order, keys distinct). A float is kept as
  its comparison with zero together with the text \<open>str()\<close> gives for it; the program
  does nothing else with one.
\<close>

datatype fsign = FNeg | FZero | FPos | FNan

datatype json =
    JNull
  | JBool bool
  | JInt int
  | JFloat fsign string
  | JStr string
  | JList "json list"
  | JDict "(string \<times> json) list"

text \<open>Truth value of an object in a condition (\<open>if data and ...\<close>).\<close>

fun truthy :: "json \<Rightarrow> bool" where
  "truthy JNull = False"
| "truthy (JBool b) = b"
| "truthy (JInt i) = (i \<noteq> 0)"
| "truthy (JFloat sg txt) = (sg \<noteq> FZero)"
| "truthy (JStr s) = (s \<noteq> [])"
| "truthy (JList xs) = (xs \<noteq> [])"
| "truthy (JDict kvs) = (kvs \<noteq> [])"

text \<open>\<open>x[key]\<close> with a string key: only a dict can be subscripted by a string.\<close>

fun subscript :: "json \<Rightarrow> string \<Rightarrow> pyerr + json" where
  "subscript (JDict kvs) k = (case map_of kvs k of None \<Rightarrow> Inl KeyError | Some v \<Rightarrow> Inr v)"
| "subscript x k = Inl TypeError"

text \<open>
  \<open>x[0]\<close>: the first element of a list or the first character of a string
  (IndexError when empty); a decoded dict has string keys only, so \<open>0\<close> is a missing key.
\<close>

fun index0 :: "json \<Rightarrow> pyerr + json" where
  "index0 (JList []) = Inl IndexError"
| "index0 (JList (x # xs)) = Inr x"
| "index0 (JStr []) = Inl IndexError"
| "index0 (JStr (c # cs)) = Inr (JStr [c])"
| "index0 (JDict kvs) = Inl KeyError"
| "index0 x = Inl TypeError"

text \<open>\<open>x > 0\<close>: defined on numbers (a bool is an int), TypeError otherwise.\<close>

fun gt_zero :: "json \<Rightarrow> pyerr + bool" where
  "gt_zero (JInt i) = Inr (0 < i)"
| "gt_zero (JBool b) = Inr b"
| "gt_zero (JFloat sg txt) = Inr (sg = FPos)"
| "gt_zero x = Inl TypeError"

text \<open>\<open>x.get(key, default)\<close>: a method of dicts.\<close>

fun dict_get :: "json \<Rightarrow> string \<Rightarrow> json \<Rightarrow> pyerr + json" where
  "dict_get (JDict kvs) k d = (case map_of kvs k of None \<Rightarrow> Inr d | Some v \<Rightarrow> Inr v)"
| "dict_get x k d = Inl AttributeError"

subsection \<open>Text of a value: \<open>str()\<close> and \<open>repr()\<close>\<close>

definition digit_char :: "nat \<Rightarrow> char" where
  "digit_char d = ''0123456789abcdef'' ! d"

fun digits :: "nat \<Rightarrow> string" where
  "digits n = (if n < 10 then [digit_char n] else digits (n div 10) @ [digit_char (n mod 10)])"

declare digits.simps [simp del]

definition int_str :: "int \<Rightarrow> string" where
  "int_str i = (if i < 0 then ''-'' @ digits (nat (- i)) else digits (nat i))"

text \<open>\<open>str.isprintable\<close> on one code point below 256.\<close>

definition isprintable_char :: "char \<Rightarrow> bool" where
  "isprintable_char c = (let n = (of_char c :: nat) in (32 \<le> n \<and> n < 127) \<or> (161 \<le> n \<and> n \<noteq> 173))"

text \<open>One character inside the quotes of \<open>repr\<close> of a string.\<close>

definition repr_char :: "char \<Rightarrow> char \<Rightarrow> string" where
  "repr_char quote c =
     (if c = quote \<or> c = CHR 0x5C then [CHR 0x5C, c]
      else if c = CHR 0x09 then [CHR 0x5C, CHR ''t'']
      else if c = CHR 0x0A then [CHR 0x5C, CHR ''n'']
      else if c = CHR 0x0D then [CHR 0x5C, CHR ''r'']
      else if isprintable_char c then [c]
      else [CHR 0x5C, CHR ''x'', digit_char (of_char c div 16), digit_char (of_char c mod 16)])"

text \<open>\<open>repr\<close> of a string: double quotes only when it holds a single quote and no double quote.\<close>

definition str_repr :: "string \<Rightarrow> string" where
  "str_repr s =
     (let quote = (if CHR 0x27 \<in> set s \<and> CHR 0x22 \<notin> set s then CHR 0x22 else CHR 0x27)
      in [quote] @ concat (map (repr_char quote) s) @ [quote])"

fun join :: "string \<Rightarrow> string list \<Rightarrow> string" where
  "join sep [] = []"
| "join sep [x] = x"
| "join sep (x # y # ys) = x @ sep @ join sep (y # ys)"

fun repr :: "json \<Rightarrow> string" where
  "repr JNull = ''None''"
| "repr (JBool b) = (if b then ''True'' else ''False'')"
| "repr (JInt i) = int_str i"
| "repr (JFloat sg txt) = txt"
| "repr (JStr s) = str_repr s"
| "repr (JList xs) = ''['' @ join '', '' (map repr xs) @ '']''"
| "repr (JDict kvs) = ''{'' @ join '', '' (map (\<lambda>(k, v). str_repr k @ '': '' @ repr v) kvs) @ ''}''"

text \<open>\<open>str(x)\<close>, which \<open>print(x)\<close> and \<open>f"{x}"\<close> write: a string is itself.\<close>

definition py_str :: "json \<Rightarrow> string" where
  "py_str v = (case v of JStr s \<Rightarrow> s | _ \<Rightarrow> repr v)"

section \<open>The environment and the state of a run\<close>

text \<open>One call \<open>requests.get(base_url, params=api_params)\<close>.\<close>

record request =
  req_method :: string
  req_url :: string
  req_params :: "(string \<times> string) list"

text \<open>
  What the three library calls in the \<open>try\<close> block of \<open>_fetch_inat_data\<close>
  (\<open>requests.get\<close>, \<open>raise_for_status\<close>, \<open>response.json\<close>) come to: a
  \<open>RequestException\<close> (no connection, timeout, or a 4xx/5xx status turned into HTTPError),
  a \<open>JSONDecodeError\<close> (the body is not JSON), each with the text of the exception, or
  the decoded body.
\<close>

datatype reply = RequestException string | JSONDecodeError string | Decoded json

text \<open>The API: the reply to a request, which may depend on the requests made before it.\<close>

type_synonym api = "request list \<Rightarrow> request \<Rightarrow> reply"

text \<open>
  The state of a run: the calls of \<open>requests.get\<close> made so far with their replies,
  the lines printed to standard output and to \<open>sys.stderr\<close> (one entry for each call of
  \<open>print\<close>), the messages given to \<open>logging.warning\<close>, and the calls of
  \<open>find_inaturalist_observation\<close> that \<open>main\<close> has made, with their arguments.
  The \<open>logging.debug\<close> trace is not part of the model: it builds its text from values
  that are always serialisable and changes nothing else.
\<close>

record state =
  calls :: "(request \<times> reply) list"
  stdout :: "string list"
  stderr :: "string list"
  warnings :: "string list"
  invocations :: "(string \<times> bool \<times> bool \<times> bool) list"

definition state0 :: state where
  "state0 = \<lparr>calls = [], stdout = [], stderr = [], warnings = [], invocations = []\<rparr>"

definition py_print :: "string \<Rightarrow> state \<Rightarrow> state" where
  "py_print line s = s\<lparr>stdout := stdout s @ [line]\<rparr>"

definition print_stderr :: "string \<Rightarrow> state \<Rightarrow> state" where
  "print_stderr line s = s\<lparr>stderr := stderr s @ [line]\<rparr>"

definition logging_warning :: "string \<Rightarrow> state \<Rightarrow> state" where
  "logging_warning msg s = s\<lparr>warnings := warnings s @ [msg]\<rparr>"

section \<open>The resolver\<close>

text \<open>
  \<open>_fetch_inat_data\<close> (the leading underscore is dropped): one GET request; the decoded
  body, or \<open>None\<close> after a warning when the request or the decoding failed. The
  parameter \<open>debug_mode\<close> is not read by the source either.
\<close>

definition fetch_inat_data :: "api \<Rightarrow> string \<Rightarrow> (string \<times> string) list \<Rightarrow> bool \<Rightarrow> state \<Rightarrow> json \<times> state" where
  "fetch_inat_data api mo_url_to_check api_params debug_mode s =
     (let base_url = ''https://api.inaturalist.org/v1/observations'';
          rq = \<lparr>req_method = ''GET'', req_url = base_url, req_params = api_params\<rparr>;
          rp = api (map fst (calls s)) rq;
          s1 = s\<lparr>calls := calls s @ [(rq, rp)]\<rparr>
      in case rp of
           Decoded data \<Rightarrow> (data, s1)
         | RequestException e \<Rightarrow>
             (JNull, logging_warning (''Network error while contacting iNaturalist API for URL '' @ mo_url_to_check @ '': '' @ e) s1)
         | JSONDecodeError e \<Rightarrow>
             (JNull, logging_warning (''Error decoding JSON response from iNaturalist API for URL '' @ mo_url_to_check @ '': '' @ e) s1))"

text \<open>\<open>_format_and_print_observation\<close>.\<close>

definition format_and_print_observation :: "string \<Rightarrow> json \<Rightarrow> string \<Rightarrow> bool \<Rightarrow> bool \<Rightarrow> state \<Rightarrow> (pyerr + unit) \<times> state" where
  "format_and_print_observation mo_number obs_item matched_mo_url url_only_flag number_only_flag s =
     (case subscript obs_item ''id'' of
        Inl e \<Rightarrow> (Inl e, s)
      | Inr obs_id \<Rightarrow>
          (let inat_url = ''https://www.inaturalist.org/observations/'' @ py_str obs_id in
           if number_only_flag then (Inr (), py_print (py_str obs_id) s)
           else if url_only_flag then (Inr (), py_print inat_url s)
           else
             (case dict_get obs_item ''species_guess'' (JStr ''N/A'') of
                Inl e \<Rightarrow> (Inl e, s)
              | Inr species_guess \<Rightarrow>
                  (case dict_get obs_item ''place_guess'' (JStr ''N/A'') of
                     Inl e \<Rightarrow> (Inl e, s)
                   | Inr place_guess \<Rightarrow>
                       (let s1 = py_print (''Mushroom Observer #'' @ mo_number @ '':'') s;
                            s2 = py_print (''  iNaturalist Observation: '' @ inat_url) s1;
                            s3 = py_print (''  Species: '' @ py_str species_guess) s2;
                            s4 = py_print (''  Location: '' @ py_str place_guess) s3;
                            s5 = py_print (''  Matched URL: '' @ matched_mo_url) s4;
                            s6 = py_print [] s5
                        in (Inr (), s6))))))"

text \<open>The six URL formats, in the order of the source.\<close>

definition mo_urls :: "string \<Rightarrow> string list" where
  "mo_urls mo_number =
     [''http://mushroomobserver.org/observer/show_observation/'' @ mo_number,
      ''https://mushroomobserver.org/observer/show_observation/'' @ mo_number,
      ''http://mushroomobserver.org/'' @ mo_number,
      ''https://mushroomobserver.org/'' @ mo_number,
      ''http://mushroomobserver.org/obs/'' @ mo_number,
      ''https://mushroomobserver.org/obs/'' @ mo_number]"

text \<open>The dict \<open>params\<close> built for one URL.\<close>

definition params :: "string \<Rightarrow> (string \<times> string) list" where
  "params mo_url = [(''field:Mushroom Observer URL'', mo_url), (''verifiable'', ''any'')]"

text \<open>The condition \<open>data and data['total_results'] > 0\<close>.\<close>

definition has_results :: "json \<Rightarrow> pyerr + bool" where
  "has_results data =
     (if \<not> truthy data then Inr False
      else case subscript data ''total_results'' of Inl e \<Rightarrow> Inl e | Inr n \<Rightarrow> gt_zero n)"

text \<open>The expression \<open>data['results'][0]\<close>.\<close>

definition first_result :: "json \<Rightarrow> pyerr + json" where
  "first_result data = (case subscript data ''results'' of Inl e \<Rightarrow> Inl e | Inr rs \<Rightarrow> index0 rs)"

text \<open>
  The loop \<open>for mo_url in mo_urls\<close> of \<open>find_inaturalist_observation\<close>: \<open>Inr True\<close> when the
  function returned from inside the loop, \<open>Inr False\<close> when the loop ran to its end.
\<close>

fun for_mo_url :: "api \<Rightarrow> string \<Rightarrow> string list \<Rightarrow> bool \<Rightarrow> bool \<Rightarrow> bool \<Rightarrow> state \<Rightarrow> (pyerr + bool) \<times> state" where
  "for_mo_url api mo_number [] debug_mode url_only number_only s = (Inr False, s)"
| "for_mo_url api mo_number (mo_url # rest) debug_mode url_only number_only s =
     (case fetch_inat_data api mo_url (params mo_url) debug_mode s of
        (data, s1) \<Rightarrow>
          (case has_results data of
             Inl e \<Rightarrow> (Inl e, s1)
           | Inr True \<Rightarrow>
               (case first_result data of
                  Inl e \<Rightarrow> (Inl e, s1)
                | Inr obs_item \<Rightarrow>
                    (case format_and_print_observation mo_number obs_item mo_url url_only number_only s1 of
                       (Inl e, s2) \<Rightarrow> (Inl e, s2)
                     | (Inr u, s2) \<Rightarrow> (Inr True, s2)))
           | Inr False \<Rightarrow> for_mo_url api mo_number rest debug_mode url_only number_only s1))"

definition find_inaturalist_observation :: "api \<Rightarrow> string \<Rightarrow> bool \<Rightarrow> bool \<Rightarrow> bool \<Rightarrow> state \<Rightarrow> (pyerr + unit) \<times> state" where
  "find_inaturalist_observation api mo_number debug_mode url_only number_only s =
     (case for_mo_url api mo_number (mo_urls mo_number) debug_mode url_only number_only s of
        (Inl e, s1) \<Rightarrow> (Inl e, s1)
      | (Inr True, s1) \<Rightarrow> (Inr (), s1)
      | (Inr False, s1) \<Rightarrow>
          if url_only \<or> number_only
          then (Inr (), py_print (''Mushroom Observer #'' @ mo_number @ '' has no iNaturalist observation associated with it.'') s1)
          else (Inr (), py_print [] (py_print (''No iNaturalist observation found for Mushroom Observer #'' @ mo_number) s1)))"

section \<open>The command line front end\<close>

text \<open>The namespace \<open>args\<close> that \<open>parser.parse_args()\<close> returns.\<close>

record args =
  arg_mo_numbers :: "string list"
  arg_file :: "string option"
  arg_debug :: bool
  arg_url :: bool
  arg_q :: bool

text \<open>
  What opening and iterating over a file comes to: its lines, one of the three errors
  \<open>main\<close> catches (\<open>IOError\<close> with the text of the exception), or bytes that do not
  decode, which raises a \<open>UnicodeDecodeError\<close> that \<open>main\<close> does not catch.
\<close>

datatype file_read =
    FileLines "string list"
  | FileNotFoundError
  | PermissionError
  | IOError string
  | Undecodable

type_synonym filesystem = "string \<Rightarrow> file_read"

text \<open>How \<open>main\<close> ends: it returns, calls \<open>sys.exit\<close>, or an exception leaves it.\<close>

datatype outcome = Returned | SysExit nat | Uncaught pyerr

text \<open>The exit status of the process: an uncaught exception ends Python with status 1.\<close>

fun exit_status :: "outcome \<Rightarrow> nat" where
  "exit_status Returned = 0"
| "exit_status (SysExit n) = n"
| "exit_status (Uncaught e) = 1"

text \<open>The \<open>if args.file:\<close> block: the numbers with the file's non-empty stripped lines appended, or the end of the run.\<close>

definition read_file :: "filesystem \<Rightarrow> string \<Rightarrow> string list \<Rightarrow> state \<Rightarrow> (outcome + string list) \<times> state" where
  "read_file fs path mo_numbers s =
     (case fs path of
        FileLines ls \<Rightarrow> (Inr (mo_numbers @ filter (\<lambda>stripped_line. stripped_line \<noteq> []) (map py_strip ls)), s)
      | FileNotFoundError \<Rightarrow>
          (Inl (SysExit 1), py_print (''Error reading file '' @ path @ '': FileNotFoundError - File not found.'') s)
      | PermissionError \<Rightarrow>
          (Inl (SysExit 1), py_print (''Error reading file '' @ path @ '': PermissionError - Permission denied.'') s)
      | IOError e \<Rightarrow>
          (Inl (SysExit 1), py_print (''Error reading file '' @ path @ '': IOError - '' @ e) s)
      | Undecodable \<Rightarrow> (Inl (Uncaught UnicodeDecodeError), s))"

text \<open>The validation loop \<open>for num_str in mo_numbers\<close>: the list \<open>valid_mo_numbers\<close> it builds.\<close>

fun validate :: "string list \<Rightarrow> state \<Rightarrow> string list \<times> state" where
  "validate [] s = ([], s)"
| "validate (num_str # rest) s =
     (let processed_num_str = py_strip num_str in
      if processed_num_str = [] then validate rest s
      else if py_isdigit processed_num_str then
        (case validate rest s of (valid_mo_numbers, s1) \<Rightarrow> (processed_num_str # valid_mo_numbers, s1))
      else
        validate rest
          (print_stderr (''Warning: Invalid MO number '' @ [CHR 0x27] @ processed_num_str @ [CHR 0x27] @ '' provided. Skipping.'') s))"

text \<open>The loop \<open>for mo_number in mo_numbers\<close> at the end of \<open>main\<close>.\<close>

fun for_mo_number :: "api \<Rightarrow> string list \<Rightarrow> bool \<Rightarrow> bool \<Rightarrow> bool \<Rightarrow> state \<Rightarrow> outcome \<times> state" where
  "for_mo_number api [] dbg url_only number_only s = (Returned, s)"
| "for_mo_number api (mo_number # rest) dbg url_only number_only s =
     (case find_inaturalist_observation api mo_number dbg url_only number_only
             (s\<lparr>invocations := invocations s @ [(mo_number, dbg, url_only, number_only)]\<rparr>) of
        (Inl e, s1) \<Rightarrow> (Uncaught e, s1)
      | (Inr u, s1) \<Rightarrow> for_mo_number api rest dbg url_only number_only s1)"

text \<open>\<open>main\<close>, from the parsed arguments on. \<open>if args.file:\<close> is false for no path and for the empty path.\<close>

definition main :: "api \<Rightarrow> filesystem \<Rightarrow> args \<Rightarrow> state \<Rightarrow> outcome \<times> state" where
  "main api fs a s =
     (case (case arg_file a of
              None \<Rightarrow> (Inr (arg_mo_numbers a), s)
            | Some path \<Rightarrow> if path = [] then (Inr (arg_mo_numbers a), s) else read_file fs path (arg_mo_numbers a) s) of
        (Inl ending, s1) \<Rightarrow> (ending, s1)
      | (Inr mo_numbers, s1) \<Rightarrow>
          (case validate mo_numbers s1 of
             (valid_mo_numbers, s2) \<Rightarrow>
               if valid_mo_numbers = [] then
                 (SysExit 1,
                  py_print ''Usage: python script.py [mo_numbers] [--file FILE] [--debug] [--url] [-q]''
                    (py_print ''Error: No valid Mushroom Observer numbers provided.'' s2))
               else for_mo_number api valid_mo_numbers (arg_debug a) (arg_url a) (arg_q a) s2))"

section \<open>Notions used in the statements\<close>

text \<open>The request \<open>_fetch_inat_data\<close> sends for one candidate URL.\<close>

definition request_for :: "string \<Rightarrow> request" where
  "request_for mo_url =
     \<lparr>req_method = ''GET'', req_url = ''https://api.inaturalist.org/v1/observations'', req_params = params mo_url\<rparr>"

fun reply_data :: "reply \<Rightarrow> json" where
  "reply_data (Decoded data) = data"
| "reply_data (RequestException e) = JNull"
| "reply_data (JSONDecodeError e) = JNull"

definition accepted :: "reply \<Rightarrow> bool" where
  "accepted rp = (has_results (reply_data rp) = Inr True)"

definition no_match :: "reply \<Rightarrow> bool" where
  "no_match rp = (has_results (reply_data rp) = Inr False)"

fun failed :: "reply \<Rightarrow> bool" where
  "failed (Decoded data) = False"
| "failed (RequestException e) = True"
| "failed (JSONDecodeError e) = True"

fun zero_results :: "reply \<Rightarrow> bool" where
  "zero_results (Decoded (JDict kvs)) = (map_of kvs ''total_results'' = Some (JInt 0))"
| "zero_results rp = False"

definition reply_at :: "api \<Rightarrow> request list \<Rightarrow> string list \<Rightarrow> nat \<Rightarrow> reply" where
  "reply_at api h us i = api (h @ map request_for (take i us)) (request_for (us ! i))"


definition file_given :: "args \<Rightarrow> string option" where
  "file_given a = (case arg_file a of None \<Rightarrow> None | Some path \<Rightarrow> if path = [] then None else Some path)"

definition tokens :: "filesystem \<Rightarrow> args \<Rightarrow> string list" where
  "tokens fs a = arg_mo_numbers a @
     (case file_given a of None \<Rightarrow> [] | Some path \<Rightarrow> (case fs path of FileLines ls \<Rightarrow> ls | _ \<Rightarrow> []))"

definition file_ok :: "filesystem \<Rightarrow> args \<Rightarrow> bool" where
  "file_ok fs a = (case file_given a of None \<Rightarrow> True | Some path \<Rightarrow> (case fs path of FileLines ls \<Rightarrow> True | _ \<Rightarrow> False))"

definition answers_cleanly :: "reply \<Rightarrow> bool" where
  "answers_cleanly rp =
     (no_match rp \<or>
      (accepted rp \<and> (case first_result (reply_data rp) of Inr (JDict kvs) \<Rightarrow> map_of kvs ''id'' \<noteq> None | _ \<Rightarrow> False)))"


section \<open>The replies the repository's tests mock\<close>

text \<open>\<open>test_find_inaturalist_observation_found\<close>: one result with all three fields.\<close>

definition mock_found :: json where
  "mock_found = JDict [(''total_results'', JInt 1),
     (''results'', JList [JDict [(''id'', JInt 12345), (''species_guess'', JStr ''Amanita muscaria''),
        (''place_guess'', JStr ''California, USA'')]])]"

text \<open>\<open>test_find_inaturalist_observation_not_found\<close>: no result.\<close>

definition mock_not_found :: json where
  "mock_not_found = JDict [(''total_results'', JInt 0), (''results'', JList [])]"

text \<open>\<open>test_api_error_handling\<close>: every request raises.\<close>

definition mock_error :: api where
  "mock_error h rq = RequestException ''Test API error''"

text \<open>An API whose first request fails and whose later requests find the observation.\<close>

definition mock_found_second :: api where
  "mock_found_second h rq = (if h = [] then RequestException ''Test API error'' else Decoded mock_found)"

text \<open>A file system with the one file of \<open>test_main_with_file_input\<close>.\<close>

definition mock_files :: filesystem where
  "mock_files path = (if path = ''dummy.txt'' then FileLines [''123'' @ [CHR 0x0A], ''456'' @ [CHR 0x0A]] else FileNotFoundError)"

section \<open>Evaluation of decimal text\<close>

lemma digits_small: "n < 10 \<Longrightarrow> digits n = [digit_char n]"
  by (simp add: digits.simps)

lemma digits_big: "10 \<le> n \<Longrightarrow> digits n = digits (n div 10) @ [digit_char (n mod 10)]"
  by (subst digits.simps) simp

section \<open>Lemmas about the resolver and the front end\<close>

lemma py_strip_idem: "py_strip (py_strip s) = py_strip s"
proof -
  define t where "t = dropWhile isspace_char s"
  define u where "u = rev (dropWhile isspace_char (rev t))"
  have "dropWhile isspace_char u = u"
    by (metis dropWhile_eq_self_iff hd_dropWhile last_appendR last_rev
        rev.simps(1) rev_rev_ident t_def takeWhile_dropWhile_id u_def)
  then show ?thesis
    unfolding py_strip_def t_def[symmetric] u_def[symmetric]
    by (simp add: u_def)
qed

lemma fetch_eq:
  "fetch_inat_data api u (params u) d s =
     (reply_data (api (map fst (calls s)) (request_for u)),
      (case api (map fst (calls s)) (request_for u) of
         Decoded data \<Rightarrow> s\<lparr>calls := calls s @ [(request_for u, api (map fst (calls s)) (request_for u))]\<rparr>
       | RequestException e \<Rightarrow> s\<lparr>calls := calls s @ [(request_for u, api (map fst (calls s)) (request_for u))],
             warnings := warnings s @ [''Network error while contacting iNaturalist API for URL '' @ u @ '': '' @ e]\<rparr>
       | JSONDecodeError e \<Rightarrow> s\<lparr>calls := calls s @ [(request_for u, api (map fst (calls s)) (request_for u))],
             warnings := warnings s @ [''Error decoding JSON response from iNaturalist API for URL '' @ u @ '': '' @ e]\<rparr>))"
  by (simp add: fetch_inat_data_def request_for_def logging_warning_def Let_def split: reply.splits)

lemma fetch_frame:
  assumes "fetch_inat_data api u (params u) d s = (data, s1)"
  shows "data = reply_data (api (map fst (calls s)) (request_for u))"
    and "calls s1 = calls s @ [(request_for u, api (map fst (calls s)) (request_for u))]"
    and "stdout s1 = stdout s" and "stderr s1 = stderr s" and "invocations s1 = invocations s"
  using assms by (auto simp: fetch_eq split: reply.splits)

lemma format_frame:
  assumes "format_and_print_observation mo obs u uo no s = (r, s1)"
  shows "calls s1 = calls s" and "stderr s1 = stderr s" and "invocations s1 = invocations s"
    and "warnings s1 = warnings s" and "\<exists>ls. stdout s1 = stdout s @ ls"
  using assms
  by (auto simp: format_and_print_observation_def py_print_def Let_def split: sum.splits if_splits)

lemma for_mo_url_frame:
  assumes "for_mo_url api mo us d uo no s = (r, s')"
  shows "stderr s' = stderr s \<and> invocations s' = invocations s \<and> (\<exists>ls. stdout s' = stdout s @ ls)
    \<and> (r = Inr False \<longrightarrow> stdout s' = stdout s)"
  using assms
proof (induction us arbitrary: s)
  case Nil
  then show ?case by simp
next
  case (Cons u us)
  obtain data s1 where f: "fetch_inat_data api u (params u) d s = (data, s1)"
    by (cases "fetch_inat_data api u (params u) d s")
  note fr = fetch_frame [OF f]
  show ?case
  proof (cases "has_results data")
    case (Inl e)
    with Cons.prems f fr show ?thesis by auto
  next
    case (Inr b)
    show ?thesis
    proof (cases b)
      case False
      with Inr Cons.prems f have "for_mo_url api mo us d uo no s1 = (r, s')" by simp
      from Cons.IH [OF this] fr show ?thesis by simp
    next
      case True
      show ?thesis
      proof (cases "first_result data")
        case (Inl e)
        with True Inr Cons.prems f fr show ?thesis by auto
      next
        case (Inr obs)
        obtain r2 s2 where g: "format_and_print_observation mo obs u uo no s1 = (r2, s2)"
          by (cases "format_and_print_observation mo obs u uo no s1")
        note gr = format_frame [OF g]
        from True \<open>has_results data = Inr b\<close> Inr Cons.prems f g have "s' = s2" "r \<noteq> Inr False"
          by (auto split: sum.splits)
        with gr fr show ?thesis by auto
      qed
    qed
  qed
qed

lemma find_frame:
  assumes "find_inaturalist_observation api mo d uo no s = (r, s')"
  shows "stderr s' = stderr s" and "invocations s' = invocations s"
  using assms for_mo_url_frame [of api mo "mo_urls mo" d uo no s]
  by (auto simp: find_inaturalist_observation_def py_print_def split: prod.splits sum.splits bool.splits if_splits)

lemma for_mo_url_trace:
  assumes "for_mo_url api mo us d uo no s = (r, s')"
  shows "\<exists>new. calls s' = calls s @ new \<and> length new \<le> length us
           \<and> map fst new = map request_for (take (length new) us)
           \<and> (\<forall>c\<in>set (butlast new). no_match (snd c))
           \<and> (r = Inr False \<longrightarrow> length new = length us \<and> (\<forall>c\<in>set new. no_match (snd c)))
           \<and> (r = Inr True \<longrightarrow> new \<noteq> [] \<and> accepted (snd (last new)))
           \<and> (\<forall>e. r = Inl e \<longrightarrow> new \<noteq> [] \<and> \<not> no_match (snd (last new)))
           \<and> (us \<noteq> [] \<longrightarrow> new \<noteq> [])"
  using assms
proof (induction us arbitrary: s)
  case Nil
  then show ?case by auto
next
  case (Cons u us)
  obtain data s1 where f: "fetch_inat_data api u (params u) d s = (data, s1)"
    by (cases "fetch_inat_data api u (params u) d s")
  note fr = fetch_frame [OF f]
  define rp where "rp = api (map fst (calls s)) (request_for u)"
  have c1: "calls s1 = calls s @ [(request_for u, rp)]" and dat: "data = reply_data rp"
    using fr by (simp_all add: rp_def)
  show ?case
  proof (cases "has_results data")
    case (Inl e)
    with Cons.prems f have "s' = s1" "r = Inl e" by auto
    moreover have "\<not> no_match rp" using Inl dat by (simp add: no_match_def)
    ultimately show ?thesis using c1 by (intro exI [of _ "[(request_for u, rp)]"]) simp
  next
    case (Inr b)
    show ?thesis
    proof (cases b)
      case False
      with Inr Cons.prems f have "for_mo_url api mo us d uo no s1 = (r, s')" by simp
      from Cons.IH [OF this] obtain new where n:
        "calls s' = calls s1 @ new" "length new \<le> length us"
        "map fst new = map request_for (take (length new) us)"
        "\<forall>c\<in>set (butlast new). no_match (snd c)"
        "r = Inr False \<longrightarrow> length new = length us \<and> (\<forall>c\<in>set new. no_match (snd c))"
        "r = Inr True \<longrightarrow> new \<noteq> [] \<and> accepted (snd (last new))"
        "\<forall>e. r = Inl e \<longrightarrow> new \<noteq> [] \<and> \<not> no_match (snd (last new))"
        by blast
      have nm: "no_match rp" using False Inr dat by (simp add: no_match_def)
      show ?thesis
        using n c1 nm by (intro exI [of _ "(request_for u, rp) # new"]) auto
    next
      case True
      have acc: "accepted rp" "\<not> no_match rp" using True Inr dat by (simp_all add: accepted_def no_match_def)
      have "calls s' = calls s1 \<and> r \<noteq> Inr False"
      proof (cases "first_result data")
        case (Inl e)
        with True \<open>has_results data = Inr b\<close> Cons.prems f show ?thesis by auto
      next
        case (Inr obs)
        obtain r2 s2 where g: "format_and_print_observation mo obs u uo no s1 = (r2, s2)"
          by (cases "format_and_print_observation mo obs u uo no s1")
        from True \<open>has_results data = Inr b\<close> Inr Cons.prems f g have "s' = s2" "r \<noteq> Inr False"
          by (auto split: sum.splits)
        with format_frame(1) [OF g] show ?thesis by simp
      qed
      with c1 acc show ?thesis by (intro exI [of _ "[(request_for u, rp)]"]) simp
    qed
  qed
qed

lemma reply_at_0: "reply_at api h (u # us) 0 = api h (request_for u)"
  by (simp add: reply_at_def)

lemma reply_at_Suc: "reply_at api h (u # us) (Suc i) = reply_at api (h @ [request_for u]) us i"
  by (simp add: reply_at_def)

lemma for_mo_url_step_no_match:
  assumes "no_match (api (map fst (calls s)) (request_for u))"
  shows "for_mo_url api mo (u # rest) d uo no s =
           for_mo_url api mo rest d uo no (snd (fetch_inat_data api u (params u) d s))"
  using assms by (simp add: fetch_eq no_match_def split: reply.splits)

lemma failed_no_match: "failed rp \<Longrightarrow> no_match rp"
  by (cases rp) (simp_all add: no_match_def has_results_def)

lemma zero_results_no_match: "zero_results rp \<Longrightarrow> no_match rp"
  by (induction rp rule: zero_results.induct) (auto simp: no_match_def has_results_def)

lemma for_mo_url_all_no_match:
  assumes "\<forall>i<length us. no_match (reply_at api (map fst (calls s)) us i)"
  shows "\<exists>s'. for_mo_url api mo us d uo no s = (Inr False, s')
           \<and> map fst (calls s') = map fst (calls s) @ map request_for us
           \<and> stdout s' = stdout s"
  using assms
proof (induction us arbitrary: s)
  case Nil
  then show ?case by simp
next
  case (Cons u us)
  obtain data s1 where f: "fetch_inat_data api u (params u) d s = (data, s1)"
    by (cases "fetch_inat_data api u (params u) d s")
  note fr = fetch_frame [OF f]
  from Cons.prems have nm: "no_match (api (map fst (calls s)) (request_for u))"
    using reply_at_0 [of api "map fst (calls s)" u us] by auto
  have "\<forall>i<length us. no_match (reply_at api (map fst (calls s1)) us i)"
  proof (intro allI impI)
    fix i assume "i < length us"
    then have "no_match (reply_at api (map fst (calls s)) (u # us) (Suc i))" using Cons.prems by simp
    then show "no_match (reply_at api (map fst (calls s1)) us i)"
      by (simp add: reply_at_Suc fr(2))
  qed
  from Cons.IH [OF this] obtain s' where
    "for_mo_url api mo us d uo no s1 = (Inr False, s')"
    "map fst (calls s') = map fst (calls s1) @ map request_for us" "stdout s' = stdout s1"
    by blast
  with for_mo_url_step_no_match [where api=api and s=s and u=u and mo=mo and rest=us and d=d and uo=uo and no=no, OF nm] f fr show ?case by simp
qed


lemma validate_eq:
  "validate toks s =
     (filter py_isdigit (map py_strip toks),
      s\<lparr>stderr := stderr s @
           map (\<lambda>p. ''Warning: Invalid MO number '' @ [CHR 0x27] @ p @ [CHR 0x27] @ '' provided. Skipping.'')
             (filter (\<lambda>p. p \<noteq> [] \<and> \<not> py_isdigit p) (map py_strip toks))\<rparr>)"
proof (induction toks arbitrary: s)
  case Nil
  then show ?case by simp
next
  case (Cons t toks)
  show ?case
    by (simp add: Cons.IH Let_def print_stderr_def py_isdigit_def)
qed

lemma for_mo_number_frame:
  assumes "for_mo_number api ms d uo no s = (oc, s')"
  shows "stderr s' = stderr s
    \<and> (\<exists>n\<le>length ms. invocations s' = invocations s @ map (\<lambda>m. (m, d, uo, no)) (take n ms))
    \<and> (oc = Returned \<longrightarrow> invocations s' = invocations s @ map (\<lambda>m. (m, d, uo, no)) ms)
    \<and> (oc = Returned \<or> (\<exists>e. oc = Uncaught e))"
  using assms
proof (induction ms arbitrary: s)
  case Nil
  then show ?case by auto
next
  case (Cons m ms)
  let ?s0 = "s\<lparr>invocations := invocations s @ [(m, d, uo, no)]\<rparr>"
  obtain r s1 where f: "find_inaturalist_observation api m d uo no ?s0 = (r, s1)"
    by (cases "find_inaturalist_observation api m d uo no ?s0")
  have ff: "stderr s1 = stderr s" "invocations s1 = invocations s @ [(m, d, uo, no)]"
    using find_frame [OF f] by simp_all
  have step: "for_mo_number api (m # ms) d uo no s =
      (case r of Inl e \<Rightarrow> (Uncaught e, s1) | Inr u \<Rightarrow> for_mo_number api ms d uo no s1)"
    using f by simp
  show ?case
  proof (cases r)
    case (Inl e)
    with step Cons.prems have "oc = Uncaught e" "s' = s1" by simp_all
    with ff show ?thesis by (auto intro: exI [of _ 1])
  next
    case (Inr u)
    with step Cons.prems have "for_mo_number api ms d uo no s1 = (oc, s')" by simp
    from Cons.IH [OF this] obtain n where n: "n \<le> length ms"
      "invocations s' = invocations s1 @ map (\<lambda>m. (m, d, uo, no)) (take n ms)"
      and rest: "stderr s' = stderr s1"
      "oc = Returned \<longrightarrow> invocations s' = invocations s1 @ map (\<lambda>m. (m, d, uo, no)) ms"
      "oc = Returned \<or> (\<exists>e. oc = Uncaught e)"
      by blast
    have "\<exists>k\<le>length (m # ms). invocations s' = invocations s @ map (\<lambda>m. (m, d, uo, no)) (take k (m # ms))"
      using n ff by (intro exI [of _ "Suc n"]) simp
    with rest ff show ?thesis by simp
  qed
qed

lemma py_isdigit_nonempty: "py_isdigit p \<Longrightarrow> p \<noteq> []"
  by (simp add: py_isdigit_def)

lemma strip_lines:
  "filter P (map py_strip (filter (\<lambda>l. l \<noteq> []) (map py_strip ls))) = filter (\<lambda>p. p \<noteq> [] \<and> P p) (map py_strip ls)"
  by (induction ls) (simp_all add: py_strip_idem)

lemma main_file_ok:
  assumes "file_ok fs a"
  shows "main api fs a s =
    (let valid = filter py_isdigit (map py_strip (tokens fs a));
         s2 = s\<lparr>stderr := stderr s @
           map (\<lambda>p. ''Warning: Invalid MO number '' @ [CHR 0x27] @ p @ [CHR 0x27] @ '' provided. Skipping.'')
             (filter (\<lambda>p. p \<noteq> [] \<and> \<not> py_isdigit p) (map py_strip (tokens fs a)))\<rparr>
     in if valid = [] then
          (SysExit 1, s2\<lparr>stdout := stdout s2 @
             [''Error: No valid Mushroom Observer numbers provided.'',
              ''Usage: python script.py [mo_numbers] [--file FILE] [--debug] [--url] [-q]'']\<rparr>)
        else for_mo_number api valid (arg_debug a) (arg_url a) (arg_q a) s2)"
proof -
  have e: "filter py_isdigit (map py_strip ls) = filter (\<lambda>p. p \<noteq> [] \<and> py_isdigit p) (map py_strip ls)" for ls
    by (rule filter_cong) (auto dest: py_isdigit_nonempty)
  show ?thesis
    using assms
    by (auto simp: main_def file_ok_def file_given_def tokens_def read_file_def validate_eq py_print_def
        strip_lines e Let_def split: option.splits file_read.splits if_splits)
qed

lemma main_file_bad:
  assumes "file_given a = Some path"
  shows "main api fs a s =
    (case fs path of
       FileLines ls \<Rightarrow> main api fs a s
     | FileNotFoundError \<Rightarrow> (SysExit 1, s\<lparr>stdout := stdout s @ [''Error reading file '' @ path @ '': FileNotFoundError - File not found.'']\<rparr>)
     | PermissionError \<Rightarrow> (SysExit 1, s\<lparr>stdout := stdout s @ [''Error reading file '' @ path @ '': PermissionError - Permission denied.'']\<rparr>)
     | IOError e \<Rightarrow> (SysExit 1, s\<lparr>stdout := stdout s @ [''Error reading file '' @ path @ '': IOError - '' @ e]\<rparr>)
     | Undecodable \<Rightarrow> (Uncaught UnicodeDecodeError, s))"
  using assms
  by (auto simp: main_def file_given_def read_file_def py_print_def split: option.splits file_read.splits if_splits)

lemma format_ok:
  assumes "map_of kvs ''id'' = Some v"
  shows "fst (format_and_print_observation mo (JDict kvs) u uo no s) = Inr ()"
  using assms by (simp add: format_and_print_observation_def Let_def split: option.splits)

lemma for_mo_url_clean:
  assumes "\<forall>h rq. answers_cleanly (api h rq)"
  shows "\<exists>b. fst (for_mo_url api mo us d uo no s) = Inr b"
proof (induction us arbitrary: s)
  case Nil
  show ?case by auto
next
  case (Cons u us)
  let ?rp = "api (map fst (calls s)) (request_for u)"
  from assms have "answers_cleanly ?rp" by blast
  then consider (nm) "no_match ?rp"
    | (acc) kvs v where "accepted ?rp" "first_result (reply_data ?rp) = Inr (JDict kvs)" "map_of kvs ''id'' = Some v"
    by (auto simp: answers_cleanly_def split: sum.splits json.splits)
  then show ?case
  proof cases
    case nm
    from for_mo_url_step_no_match [where api=api and s=s and u=u and mo=mo and rest=us and d=d and uo=uo and no=no, OF nm]
      Cons.IH show ?thesis by simp
  next
    case acc
    obtain dat s1 where f: "fetch_inat_data api u (params u) d s = (dat, s1)"
      by (cases "fetch_inat_data api u (params u) d s")
    have dat: "dat = reply_data ?rp" using fetch_frame(1) [OF f] .
    have hr: "has_results dat = Inr True" using acc(1) dat by (simp add: accepted_def)
    have fr: "first_result dat = Inr (JDict kvs)" using acc(2) dat by simp
    have "fst (format_and_print_observation mo (JDict kvs) u uo no s1) = Inr ()"
      using format_ok [OF acc(3)] .
    then obtain s2 where "format_and_print_observation mo (JDict kvs) u uo no s1 = (Inr (), s2)"
      by (cases "format_and_print_observation mo (JDict kvs) u uo no s1") auto
    with f hr fr show ?thesis by auto
  qed
qed

lemma find_clean:
  assumes "\<forall>h rq. answers_cleanly (api h rq)"
  shows "fst (find_inaturalist_observation api mo d uo no s) = Inr ()"
  using for_mo_url_clean [OF assms, of mo "mo_urls mo" d uo no s]
  by (auto simp: find_inaturalist_observation_def split: prod.splits sum.splits bool.splits)

lemma for_mo_number_clean:
  assumes "\<forall>h rq. answers_cleanly (api h rq)"
  shows "fst (for_mo_number api ms d uo no s) = Returned"
proof (induction ms arbitrary: s)
  case Nil
  show ?case by simp
next
  case (Cons m ms)
  let ?s0 = "s\<lparr>invocations := invocations s @ [(m, d, uo, no)]\<rparr>"
  obtain r s1 where f: "find_inaturalist_observation api m d uo no ?s0 = (r, s1)"
    by (cases "find_inaturalist_observation api m d uo no ?s0")
  with find_clean [OF assms, of m d uo no ?s0] have "r = Inr ()" by simp
  with f Cons.IH [of s1] show ?case by simp
qed

lemmas eval_rules = py_str_def int_str_def digits_small digits_big digit_char_def py_print_def
  find_inaturalist_observation_def mo_urls_def fetch_inat_data_def Let_def has_results_def first_result_def state0_def
  format_and_print_observation_def request_for_def params_def
  mock_found_def mock_not_found_def mock_error_def mock_found_second_def mock_files_def
  main_def read_file_def py_strip_def isspace_char_def py_isdigit_def isdigit_char_def isdecimal_char_def
  print_stderr_def logging_warning_def reply_at_def no_match_def accepted_def
  file_given_def tokens_def file_ok_def

lemma format_number_only:
  assumes "subscript obs_item ''id'' = Inr obs_id"
  shows "format_and_print_observation mo obs_item matched uo True s = (Inr (), s\<lparr>stdout := stdout s @ [py_str obs_id]\<rparr>)"
  using assms by (simp add: format_and_print_observation_def py_print_def)

lemma find_flags_both:
  "find_inaturalist_observation api mo d True True s = find_inaturalist_observation api mo d False True s"
proof -
  have fmt: "format_and_print_observation mo obs u True True s1 = format_and_print_observation mo obs u False True s1" for obs u s1
    by (simp add: format_and_print_observation_def split: sum.splits)
  have "for_mo_url api mo us d True True s = for_mo_url api mo us d False True s" for us
    by (induction us arbitrary: s) (simp_all add: fmt split: prod.splits sum.splits bool.splits)
  then show ?thesis by (simp add: find_inaturalist_observation_def split: prod.splits sum.splits bool.splits)
qed

lemma find_not_found:
  assumes "\<forall>i<6. no_match (reply_at api (map fst (calls s)) (mo_urls mo) i)"
  shows "fst (find_inaturalist_observation api mo d uo no s) = Inr ()"
    and "map fst (calls (snd (find_inaturalist_observation api mo d uo no s))) = map fst (calls s) @ map request_for (mo_urls mo)"
    and "stdout (snd (find_inaturalist_observation api mo d uo no s)) = stdout s @
          (if uo \<or> no then [''Mushroom Observer #'' @ mo @ '' has no iNaturalist observation associated with it.'']
           else [''No iNaturalist observation found for Mushroom Observer #'' @ mo, ''''])"
proof -
  have len: "length (mo_urls mo) = 6" by (simp add: mo_urls_def)
  with assms have "\<forall>i<length (mo_urls mo). no_match (reply_at api (map fst (calls s)) (mo_urls mo) i)" by simp
  from for_mo_url_all_no_match [OF this, of mo d uo no] obtain s1 where
    l: "for_mo_url api mo (mo_urls mo) d uo no s = (Inr False, s1)"
       "map fst (calls s1) = map fst (calls s) @ map request_for (mo_urls mo)" "stdout s1 = stdout s"
    by blast
  show "fst (find_inaturalist_observation api mo d uo no s) = Inr ()"
    using l by (simp add: find_inaturalist_observation_def)
  show "map fst (calls (snd (find_inaturalist_observation api mo d uo no s))) = map fst (calls s) @ map request_for (mo_urls mo)"
    using l by (simp add: find_inaturalist_observation_def py_print_def)
  show "stdout (snd (find_inaturalist_observation api mo d uo no s)) = stdout s @
          (if uo \<or> no then [''Mushroom Observer #'' @ mo @ '' has no iNaturalist observation associated with it.'']
           else [''No iNaturalist observation found for Mushroom Observer #'' @ mo, ''''])"
    using l by (simp add: find_inaturalist_observation_def py_print_def)
qed

lemma find_trace:
  assumes "find_inaturalist_observation api mo d uo no s = (r, s')"
  shows "\<exists>new. calls s' = calls s @ new \<and> new \<noteq> [] \<and> length new \<le> 6
           \<and> map fst new = map request_for (take (length new) (mo_urls mo))
           \<and> (\<forall>c\<in>set (butlast new). no_match (snd c))
           \<and> (length new < 6 \<longrightarrow> accepted (snd (last new)) \<or> (\<exists>e. r = Inl e))
           \<and> (\<forall>e. r = Inl e \<longrightarrow> \<not> no_match (snd (last new)))"
proof -
  obtain b s1 where l: "for_mo_url api mo (mo_urls mo) d uo no s = (b, s1)"
    by (cases "for_mo_url api mo (mo_urls mo) d uo no s")
  have len: "length (mo_urls mo) = 6" "mo_urls mo \<noteq> []" by (simp_all add: mo_urls_def)
  from for_mo_url_trace [OF l] len obtain new where n:
    "calls s1 = calls s @ new" "length new \<le> 6" "new \<noteq> []"
    "map fst new = map request_for (take (length new) (mo_urls mo))"
    "\<forall>c\<in>set (butlast new). no_match (snd c)"
    "b = Inr False \<longrightarrow> length new = 6"
    "b = Inr True \<longrightarrow> accepted (snd (last new))"
    "\<forall>e. b = Inl e \<longrightarrow> \<not> no_match (snd (last new))"
    by auto
  have c: "calls s' = calls s1" and rb: "(\<forall>e. r = Inl e \<longrightarrow> b = Inl e)" "(r = Inr () \<longrightarrow> b = Inr True \<or> b = Inr False)"
    using assms l
    by (auto simp: find_inaturalist_observation_def py_print_def split: sum.splits bool.splits if_splits)
  have "length new < 6 \<longrightarrow> accepted (snd (last new)) \<or> (\<exists>e. r = Inl e)"
    using n(6,7) rb by (cases r) auto
  with n c rb show ?thesis by (intro exI [of _ new]) auto
qed



lemma for_mo_number_not_found:
  assumes "\<forall>h rq. no_match (api h rq)"
  shows "fst (for_mo_number api ms d uo no s) = Returned
    \<and> stdout (snd (for_mo_number api ms d uo no s)) = stdout s @ concat (map (\<lambda>m.
          if uo \<or> no then [''Mushroom Observer #'' @ m @ '' has no iNaturalist observation associated with it.'']
          else [''No iNaturalist observation found for Mushroom Observer #'' @ m, '''']) ms)"
proof (induction ms arbitrary: s)
  case Nil
  show ?case by simp
next
  case (Cons m ms)
  let ?s0 = "s\<lparr>invocations := invocations s @ [(m, d, uo, no)]\<rparr>"
  obtain r s1 where f: "find_inaturalist_observation api m d uo no ?s0 = (r, s1)"
    by (cases "find_inaturalist_observation api m d uo no ?s0")
  have nm: "\<forall>i<6. no_match (reply_at api (map fst (calls ?s0)) (mo_urls m) i)"
    using assms by (simp add: reply_at_def)
  have r: "r = Inr ()" using find_not_found(1) [OF nm, of d uo no] f by simp
  have o: "stdout s1 = stdout s @
          (if uo \<or> no then [''Mushroom Observer #'' @ m @ '' has no iNaturalist observation associated with it.'']
           else [''No iNaturalist observation found for Mushroom Observer #'' @ m, ''''])"
    using find_not_found(3) [OF nm, of d uo no] f by simp
  have step: "for_mo_number api (m # ms) d uo no s = for_mo_number api ms d uo no s1"
    using f r by simp
  show ?case unfolding step using Cons.IH [of s1] o by simp
qed

lemma main_endings:
  "fst (main api fs a s) = Returned \<or> fst (main api fs a s) = SysExit 1 \<or> (\<exists>e. fst (main api fs a s) = Uncaught e)"
proof (cases "file_ok fs a")
  case True
  let ?valid = "filter py_isdigit (map py_strip (tokens fs a))"
  show ?thesis
  proof (cases "?valid = []")
    case True
    with \<open>file_ok fs a\<close> show ?thesis by (simp add: main_file_ok Let_def)
  next
    case False
    obtain oc s' where r: "main api fs a s = (oc, s')" by (cases "main api fs a s")
    with False \<open>file_ok fs a\<close> obtain s2 where "for_mo_number api ?valid (arg_debug a) (arg_url a) (arg_q a) s2 = (oc, s')"
      by (auto simp: main_file_ok Let_def)
    from for_mo_number_frame [OF this] r show ?thesis by auto
  qed
next
  case False
  then obtain path where p: "file_given a = Some path" and nl: "\<forall>ls. fs path \<noteq> FileLines ls"
    by (auto simp: file_ok_def split: option.splits file_read.splits)
  from nl main_file_bad [OF p, of api fs s] show ?thesis
    by (cases "fs path") simp_all
qed

lemma main_unreadable:
  assumes "file_given a = Some path" and "\<forall>ls. fs path \<noteq> FileLines ls"
  shows "exit_status (fst (main api fs a s)) = 1" and "calls (snd (main api fs a s)) = calls s"
    and "invocations (snd (main api fs a s)) = invocations s" and "fst (main api fs a s) \<noteq> Returned"
    and "stderr (snd (main api fs a s)) = stderr s"
  using assms(2) main_file_bad [OF assms(1), of api fs s]
  by (cases "fs path"; simp)+

lemma main_returned_file_ok:
  assumes "fst (main api fs a s) = Returned"
  shows "file_ok fs a"
proof (rule ccontr)
  assume "\<not> file_ok fs a"
  then obtain path where p: "file_given a = Some path" and nl: "\<forall>ls. fs path \<noteq> FileLines ls"
    by (auto simp: file_ok_def split: option.splits file_read.splits)
  from main_unreadable(4) [where a=a and path=path and fs=fs and api=api and s=s, OF p nl] assms show False by simp
qed

lemma isdigit_filter:
  "filter py_isdigit xs = filter (\<lambda>p. p \<noteq> [] \<and> list_all isdigit_char p) xs"
  "filter (\<lambda>p. p \<noteq> [] \<and> \<not> py_isdigit p) xs = filter (\<lambda>p. p \<noteq> [] \<and> \<not> list_all isdigit_char p) xs"
  by (rule filter_cong; auto simp: py_isdigit_def)+

lemma main_stderr:
  assumes "file_ok fs a"
  shows "stderr (snd (main api fs a s)) = stderr s @
           map (\<lambda>p. ''Warning: Invalid MO number '' @ [CHR 0x27] @ p @ [CHR 0x27] @ '' provided. Skipping.'')
             (filter (\<lambda>p. p \<noteq> [] \<and> \<not> list_all isdigit_char p) (map py_strip (tokens fs a)))"
proof -
  let ?valid = "filter py_isdigit (map py_strip (tokens fs a))"
  let ?s2 = "snd (validate (tokens fs a) s)"
  have v: "stderr ?s2 = stderr s @
           map (\<lambda>p. ''Warning: Invalid MO number '' @ [CHR 0x27] @ p @ [CHR 0x27] @ '' provided. Skipping.'')
             (filter (\<lambda>p. p \<noteq> [] \<and> \<not> list_all isdigit_char p) (map py_strip (tokens fs a)))"
    by (simp add: validate_eq isdigit_filter(2))
  show ?thesis
  proof (cases "?valid = []")
    case True
    with assms v show ?thesis by (simp add: main_file_ok Let_def validate_eq)
  next
    case False
    obtain oc s' where m: "main api fs a s = (oc, s')" by (cases "main api fs a s")
    with assms False have "for_mo_number api ?valid (arg_debug a) (arg_url a) (arg_q a) ?s2 = (oc, s')"
      by (simp add: main_file_ok Let_def validate_eq)
    from for_mo_number_frame [OF this] have "stderr s' = stderr ?s2" by simp
    with m v show ?thesis by simp
  qed
qed

lemma main_invocations:
  assumes "file_ok fs a"
  shows "\<exists>n\<le>length (filter py_isdigit (map py_strip (tokens fs a))).
           invocations (snd (main api fs a s)) = invocations s @
             map (\<lambda>m. (m, arg_debug a, arg_url a, arg_q a)) (take n (filter py_isdigit (map py_strip (tokens fs a))))"
proof -
  let ?valid = "filter py_isdigit (map py_strip (tokens fs a))"
  let ?s2 = "snd (validate (tokens fs a) s)"
  show ?thesis
  proof (cases "?valid = []")
    case True
    with assms show ?thesis by (simp add: main_file_ok Let_def)
  next
    case False
    obtain oc s' where m: "main api fs a s = (oc, s')" by (cases "main api fs a s")
    with assms False have "for_mo_number api ?valid (arg_debug a) (arg_url a) (arg_q a) ?s2 = (oc, s')"
      by (simp add: main_file_ok Let_def validate_eq)
    from for_mo_number_frame [OF this] obtain n where "n \<le> length ?valid"
      "invocations s' = invocations ?s2 @ map (\<lambda>m. (m, arg_debug a, arg_url a, arg_q a)) (take n ?valid)"
      by blast
    with m show ?thesis by (intro exI [of _ n]) (simp add: validate_eq)
  qed
qed

section \<open>The claims\<close>

subsection \<open>C1: the candidate queries\<close>

text \<open>
  C1 (amended): every lookup sends the GET requests for a non-empty prefix of the six candidate URLs,
  in the fixed order, one request for each, with the parameters \<open>field:Mushroom Observer URL\<close> set to the
  candidate and \<open>verifiable\<close> set to \<open>any\<close>, and never a seventh. When fewer than six are sent, the reply
  to the last one passed the test \<open>data and data['total_results'] > 0\<close>, or the lookup ended in an
  uncaught exception.
\<close>

theorem candidate_queries_in_order:
  assumes "find_inaturalist_observation api mo d uo no s = (r, s')"
  shows "\<exists>n. 1 \<le> n \<and> n \<le> 6 \<and>
     map fst (calls s') = map fst (calls s) @
       map (\<lambda>mo_url. \<lparr>req_method = ''GET'', req_url = ''https://api.inaturalist.org/v1/observations'',
                      req_params = [(''field:Mushroom Observer URL'', mo_url), (''verifiable'', ''any'')]\<rparr>)
         (take n [''http://mushroomobserver.org/observer/show_observation/'' @ mo,
                  ''https://mushroomobserver.org/observer/show_observation/'' @ mo,
                  ''http://mushroomobserver.org/'' @ mo,
                  ''https://mushroomobserver.org/'' @ mo,
                  ''http://mushroomobserver.org/obs/'' @ mo,
                  ''https://mushroomobserver.org/obs/'' @ mo])
     \<and> (n < 6 \<longrightarrow> accepted (snd (last (calls s'))) \<or> (\<exists>e. r = Inl e))"
proof -
  from find_trace [OF assms] obtain new where n:
    "calls s' = calls s @ new" "new \<noteq> []" "length new \<le> 6"
    "map fst new = map request_for (take (length new) (mo_urls mo))"
    "length new < 6 \<longrightarrow> accepted (snd (last new)) \<or> (\<exists>e. r = Inl e)"
    by blast
  have rq: "request_for = (\<lambda>mo_url. \<lparr>req_method = ''GET'', req_url = ''https://api.inaturalist.org/v1/observations'',
                      req_params = [(''field:Mushroom Observer URL'', mo_url), (''verifiable'', ''any'')]\<rparr>)"
    by (rule ext) (simp add: request_for_def params_def)
  have "1 \<le> length new" using n(2) by (cases new) simp_all
  with n show ?thesis
    unfolding rq [symmetric] mo_urls_def [symmetric]
    by (intro exI [of _ "length new"]) simp
qed

text \<open>The API whose first request fails and whose second finds the observation: two requests.\<close>

theorem candidate_queries_in_order_witness:
  "\<exists>n. 1 \<le> n \<and> n \<le> 6 \<and>
     map fst (calls (snd (find_inaturalist_observation mock_found_second ''67890'' False False False state0))) =
       map (\<lambda>mo_url. \<lparr>req_method = ''GET'', req_url = ''https://api.inaturalist.org/v1/observations'',
                      req_params = [(''field:Mushroom Observer URL'', mo_url), (''verifiable'', ''any'')]\<rparr>)
         (take n [''http://mushroomobserver.org/observer/show_observation/67890'',
                  ''https://mushroomobserver.org/observer/show_observation/67890'',
                  ''http://mushroomobserver.org/67890'',
                  ''https://mushroomobserver.org/67890'',
                  ''http://mushroomobserver.org/obs/67890'',
                  ''https://mushroomobserver.org/obs/67890''])
     \<and> n = 2
     \<and> accepted (snd (last (calls (snd (find_inaturalist_observation mock_found_second ''67890'' False False False state0)))))"
proof -
  have run: "find_inaturalist_observation mock_found_second ''67890'' False False False state0
    = (Inr (), state0\<lparr>calls :=
          [(request_for ''http://mushroomobserver.org/observer/show_observation/67890'', RequestException ''Test API error''),
           (request_for ''https://mushroomobserver.org/observer/show_observation/67890'', Decoded mock_found)],
        stdout := [''Mushroom Observer #67890:'',
          ''  iNaturalist Observation: https://www.inaturalist.org/observations/12345'',
          ''  Species: Amanita muscaria'',
          ''  Location: California, USA'',
          ''  Matched URL: https://mushroomobserver.org/observer/show_observation/67890'',
          ''''],
        warnings := [''Network error while contacting iNaturalist API for URL http://mushroomobserver.org/observer/show_observation/67890: Test API error'']\<rparr>)"
    by (simp add: eval_rules)
  from candidate_queries_in_order [OF run] show ?thesis
    by (simp add: eval_rules)
qed

text \<open>The claim as stated (fewer than six requests only when a candidate matched) fails: a decoded body
  that is a non-empty object without \<open>total_results\<close> raises KeyError at the first candidate. One request
  is sent, nothing is printed and no candidate matched.\<close>

theorem lookup_stops_without_match:
  "find_inaturalist_observation (\<lambda>h rq. Decoded (JDict [(''error'', JStr ''rate limited'')])) ''1'' False False False state0
     = (Inl KeyError,
        state0\<lparr>calls := [(\<lparr>req_method = ''GET'', req_url = ''https://api.inaturalist.org/v1/observations'',
                             req_params = [(''field:Mushroom Observer URL'', ''http://mushroomobserver.org/observer/show_observation/1''),
                                           (''verifiable'', ''any'')]\<rparr>,
                           Decoded (JDict [(''error'', JStr ''rate limited'')]))]\<rparr>)
   \<and> \<not> accepted (Decoded (JDict [(''error'', JStr ''rate limited'')]))"
  by (simp add: eval_rules)

subsection \<open>C2: the first reply with results is the one accepted\<close>



subsection \<open>C3: a failed candidate is skipped\<close>

text \<open>
  C3 (amended): a candidate whose request raises \<open>RequestException\<close> or whose body does not decode
  as JSON (\<open>JSONDecodeError\<close>) yields \<open>None\<close>, prints nothing, and the loop goes on with the remaining
  candidates exactly as it would without it; a lookup that ends in an exception never does so on
  such a candidate; and when each of the six candidates fails in one of these two ways or reports
  zero results the lookup returns normally after six requests with the not-found output.
\<close>

theorem failed_candidate_is_skipped:
  "(failed (api (map fst (calls s)) (request_for u)) \<longrightarrow>
      fst (fetch_inat_data api u (params u) d s) = JNull
      \<and> stdout (snd (fetch_inat_data api u (params u) d s)) = stdout s
      \<and> for_mo_url api mo (u # rest) d uo no s
          = for_mo_url api mo rest d uo no (snd (fetch_inat_data api u (params u) d s)))
   \<and> (find_inaturalist_observation api mo d uo no s = (Inl e, s') \<longrightarrow>
        calls s' \<noteq> [] \<and> \<not> failed (snd (last (calls s'))))
   \<and> ((\<forall>i<6. failed (reply_at api (map fst (calls s)) (mo_urls mo) i)
              \<or> zero_results (reply_at api (map fst (calls s)) (mo_urls mo) i)) \<longrightarrow>
        fst (find_inaturalist_observation api mo d uo no s) = Inr ()
        \<and> map fst (calls (snd (find_inaturalist_observation api mo d uo no s)))
            = map fst (calls s) @ map request_for (mo_urls mo)
        \<and> stdout (snd (find_inaturalist_observation api mo d uo no s)) = stdout s @
            (if uo \<or> no then [''Mushroom Observer #'' @ mo @ '' has no iNaturalist observation associated with it.'']
             else [''No iNaturalist observation found for Mushroom Observer #'' @ mo, '''']))"
proof (intro conjI impI)
  assume f: "failed (api (map fst (calls s)) (request_for u))"
  then show "fst (fetch_inat_data api u (params u) d s) = JNull"
    by (cases "api (map fst (calls s)) (request_for u)") (simp_all add: fetch_eq)
  show "stdout (snd (fetch_inat_data api u (params u) d s)) = stdout s"
    by (simp add: fetch_eq split: reply.splits)
  from failed_no_match [OF f]
  show "for_mo_url api mo (u # rest) d uo no s
          = for_mo_url api mo rest d uo no (snd (fetch_inat_data api u (params u) d s))"
    by (rule for_mo_url_step_no_match)
next
  assume run: "find_inaturalist_observation api mo d uo no s = (Inl e, s')"
  from find_trace [OF run] obtain new where n:
    "calls s' = calls s @ new" "new \<noteq> []" "\<not> no_match (snd (last new))"
    by blast
  then show "calls s' \<noteq> []" by simp
  from n failed_no_match show "\<not> failed (snd (last (calls s')))" by auto
next
  assume "\<forall>i<6. failed (reply_at api (map fst (calls s)) (mo_urls mo) i)
              \<or> zero_results (reply_at api (map fst (calls s)) (mo_urls mo) i)"
  then have nm: "\<forall>i<6. no_match (reply_at api (map fst (calls s)) (mo_urls mo) i)"
    using failed_no_match zero_results_no_match by blast
  show "fst (find_inaturalist_observation api mo d uo no s) = Inr ()"
    using find_not_found(1) [OF nm] .
  show "map fst (calls (snd (find_inaturalist_observation api mo d uo no s)))
            = map fst (calls s) @ map request_for (mo_urls mo)"
    using find_not_found(2) [OF nm] .
  show "stdout (snd (find_inaturalist_observation api mo d uo no s)) = stdout s @
            (if uo \<or> no then [''Mushroom Observer #'' @ mo @ '' has no iNaturalist observation associated with it.'']
             else [''No iNaturalist observation found for Mushroom Observer #'' @ mo, ''''])"
    using find_not_found(3) [OF nm] .
qed

text \<open>The API of the repository's error test: six requests, six warnings, the not-found message.\<close>

theorem failed_candidate_is_skipped_witness:
  "fst (fetch_inat_data mock_error ''http://mushroomobserver.org/observer/show_observation/11111''
          (params ''http://mushroomobserver.org/observer/show_observation/11111'') False state0) = JNull
   \<and> fst (find_inaturalist_observation mock_error ''11111'' False False False state0) = Inr ()
   \<and> map fst (calls (snd (find_inaturalist_observation mock_error ''11111'' False False False state0)))
       = map request_for (mo_urls ''11111'')
   \<and> stdout (snd (find_inaturalist_observation mock_error ''11111'' False False False state0))
       = [''No iNaturalist observation found for Mushroom Observer #11111'', '''']
   \<and> length (warnings (snd (find_inaturalist_observation mock_error ''11111'' False False False state0))) = 6"
proof -
  have h1: "failed (mock_error (map fst (calls state0)) (request_for ''http://mushroomobserver.org/observer/show_observation/11111''))"
    by (simp add: mock_error_def)
  have h2: "\<forall>i<6. failed (reply_at mock_error (map fst (calls state0)) (mo_urls ''11111'') i)
              \<or> zero_results (reply_at mock_error (map fst (calls state0)) (mo_urls ''11111'') i)"
    by (simp add: reply_at_def mock_error_def)
  note t = failed_candidate_is_skipped [of mock_error state0 "''http://mushroomobserver.org/observer/show_observation/11111''"
     False "''11111''" "[]" False False]
  have w: "length (warnings (snd (find_inaturalist_observation mock_error ''11111'' False False False state0))) = 6"
    by (simp add: eval_rules)
  from t [THEN conjunct1, THEN mp, OF h1] t [THEN conjunct2, THEN conjunct2, THEN mp, OF h2] w
  show ?thesis by (simp add: state0_def)
qed

text \<open>
  The claim as stated covers every malformed body, and fails on one that decodes: the body of the
  first candidate is the JSON string \<open>maintenance\<close>, not an object. Subscripting it raises TypeError,
  the lookup ends after one request with nothing printed, and the remaining candidates, whose
  replies would have been accepted, are never queried.
\<close>

theorem wrong_shape_body_aborts_lookup:
  "find_inaturalist_observation
      (\<lambda>h rq. if h = [] then Decoded (JStr ''maintenance'') else Decoded mock_found)
      ''67890'' False False False state0
     = (Inl TypeError,
        state0\<lparr>calls := [(\<lparr>req_method = ''GET'', req_url = ''https://api.inaturalist.org/v1/observations'',
                             req_params = [(''field:Mushroom Observer URL'', ''http://mushroomobserver.org/observer/show_observation/67890''),
                                           (''verifiable'', ''any'')]\<rparr>,
                           Decoded (JStr ''maintenance''))]\<rparr>)
   \<and> accepted (Decoded mock_found)
   \<and> \<not> failed (Decoded (JStr ''maintenance''))"
  by (simp add: eval_rules)

subsection \<open>C4: which tokens are accepted\<close>

text \<open>
  C4 (amended): the accepted tokens are, in input order, the stripped forms of the tokens that are
  non-empty after stripping and consist of characters for which \<open>str.isdigit\<close> holds (the decimal
  digits and, among others, the superscript digits); whenever that list is not empty the lookup loop
  is run on exactly it, and a run that returns has called the resolver once for each of its
  elements, in order.
\<close>

theorem accepted_tokens:
  "fst (validate toks s) = filter (\<lambda>p. p \<noteq> [] \<and> list_all isdigit_char p) (map py_strip toks)
   \<and> (file_ok fs a \<and> filter (\<lambda>p. p \<noteq> [] \<and> list_all isdigit_char p) (map py_strip (tokens fs a)) \<noteq> [] \<longrightarrow>
        main api fs a s =
          for_mo_number api (filter (\<lambda>p. p \<noteq> [] \<and> list_all isdigit_char p) (map py_strip (tokens fs a)))
            (arg_debug a) (arg_url a) (arg_q a) (snd (validate (tokens fs a) s)))
   \<and> (fst (main api fs a s) = Returned \<longrightarrow>
        invocations (snd (main api fs a s)) = invocations s @
          map (\<lambda>m. (m, arg_debug a, arg_url a, arg_q a))
            (filter (\<lambda>p. p \<noteq> [] \<and> list_all isdigit_char p) (map py_strip (tokens fs a))))"
proof (intro conjI impI)
  show "fst (validate toks s) = filter (\<lambda>p. p \<noteq> [] \<and> list_all isdigit_char p) (map py_strip toks)"
    by (simp add: validate_eq isdigit_filter(1))
next
  assume "file_ok fs a \<and> filter (\<lambda>p. p \<noteq> [] \<and> list_all isdigit_char p) (map py_strip (tokens fs a)) \<noteq> []"
  then show "main api fs a s =
          for_mo_number api (filter (\<lambda>p. p \<noteq> [] \<and> list_all isdigit_char p) (map py_strip (tokens fs a)))
            (arg_debug a) (arg_url a) (arg_q a) (snd (validate (tokens fs a) s))"
    by (simp add: main_file_ok Let_def validate_eq isdigit_filter(1) [symmetric])
next
  assume r: "fst (main api fs a s) = Returned"
  let ?valid = "filter py_isdigit (map py_strip (tokens fs a))"
  from main_returned_file_ok [OF r] have ok: "file_ok fs a" .
  have ne: "?valid \<noteq> []"
  proof
    assume "?valid = []"
    with ok have "fst (main api fs a s) = SysExit 1" by (simp add: main_file_ok Let_def)
    with r show False by simp
  qed
  obtain oc s' where m: "main api fs a s = (oc, s')" by (cases "main api fs a s")
  with ok ne have "for_mo_number api ?valid (arg_debug a) (arg_url a) (arg_q a) (snd (validate (tokens fs a) s)) = (oc, s')"
    by (simp add: main_file_ok Let_def validate_eq)
  from for_mo_number_frame [OF this] r m
  have "invocations s' = invocations (snd (validate (tokens fs a) s)) @ map (\<lambda>m. (m, arg_debug a, arg_url a, arg_q a)) ?valid"
    by simp
  with m show "invocations (snd (main api fs a s)) = invocations s @
          map (\<lambda>m. (m, arg_debug a, arg_url a, arg_q a))
            (filter (\<lambda>p. p \<noteq> [] \<and> list_all isdigit_char p) (map py_strip (tokens fs a)))"
    by (simp add: validate_eq isdigit_filter(1))
qed

text \<open>Tokens with surrounding whitespace, from the command line and from the file of the repository's test.\<close>

theorem accepted_tokens_witness:
  "fst (validate ['' 123 '', ''12a'', '''', ''456'' @ [CHR 0x0A]] state0) = [''123'', ''456'']
   \<and> invocations (snd (main mock_error mock_files
        \<lparr>arg_mo_numbers = ['' 7 ''], arg_file = Some ''dummy.txt'', arg_debug = False, arg_url = True, arg_q = False\<rparr> state0))
      = [(''7'', False, True, False), (''123'', False, True, False), (''456'', False, True, False)]"
proof -
  let ?a = "\<lparr>arg_mo_numbers = ['' 7 ''], arg_file = Some ''dummy.txt'', arg_debug = False, arg_url = True, arg_q = False\<rparr>"
  have r: "fst (main mock_error mock_files ?a state0) = Returned"
    by (simp add: eval_rules)
  have v: "filter (\<lambda>p. p \<noteq> [] \<and> list_all isdigit_char p) (map py_strip (tokens mock_files ?a)) = [''7'', ''123'', ''456'']"
    by (simp add: eval_rules)
  from accepted_tokens [of "['' 123 '', ''12a'', '''', ''456'' @ [CHR 0x0A]]" state0 mock_files ?a mock_error, THEN conjunct1]
    accepted_tokens [of "[]" state0 mock_files ?a mock_error, THEN conjunct2, THEN conjunct2, THEN mp, OF r]
  show ?thesis
    by (simp add: v) (simp add: eval_rules)
qed

text \<open>The claim as stated fails on the token U+00B2 (superscript two): it is not a decimal digit, yet
  \<open>isdigit\<close> holds for it, no warning is printed and the resolver is called with it.\<close>

theorem superscript_digit_accepted:
  "\<not> list_all isdecimal_char (py_strip [CHR 0xB2])
   \<and> fst (validate [[CHR 0xB2]] state0) = [[CHR 0xB2]]
   \<and> stderr (snd (validate [[CHR 0xB2]] state0)) = []
   \<and> invocations (snd (main mock_error mock_files
        \<lparr>arg_mo_numbers = [[CHR 0xB2]], arg_file = None, arg_debug = False, arg_url = False, arg_q = False\<rparr> state0))
      = [([CHR 0xB2], False, False, False)]"
  by (simp add: eval_rules)

subsection \<open>C5: warnings for invalid tokens\<close>

text \<open>
  C5 (amended): validation prints nothing to standard output and prints to \<open>sys.stderr\<close> one
  warning, naming the stripped token, for each token that is non-empty after stripping and not
  all digits (\<open>str.isdigit\<close>), in input order; such a token is left out of the valid numbers and the
  tokens after it are still processed. A token that is empty after stripping is left out without a
  warning. For the arguments \<open>123 abc 456\<close> the one warning names \<open>abc\<close>, the resolver is called for a
  prefix of \<open>123\<close>, \<open>456\<close>, and for both when the run returns.
\<close>

theorem invalid_tokens_warned:
  "validate toks s =
     (filter (\<lambda>p. p \<noteq> [] \<and> list_all isdigit_char p) (map py_strip toks),
      s\<lparr>stderr := stderr s @
           map (\<lambda>p. ''Warning: Invalid MO number '' @ [CHR 0x27] @ p @ [CHR 0x27] @ '' provided. Skipping.'')
             (filter (\<lambda>p. p \<noteq> [] \<and> \<not> list_all isdigit_char p) (map py_strip toks))\<rparr>)
   \<and> (file_ok fs a \<longrightarrow>
        stderr (snd (main api fs a s)) = stderr s @
           map (\<lambda>p. ''Warning: Invalid MO number '' @ [CHR 0x27] @ p @ [CHR 0x27] @ '' provided. Skipping.'')
             (filter (\<lambda>p. p \<noteq> [] \<and> \<not> list_all isdigit_char p) (map py_strip (tokens fs a))))
   \<and> stderr (snd (main api fs
          \<lparr>arg_mo_numbers = [''123'', ''abc'', ''456''], arg_file = None, arg_debug = d, arg_url = uo, arg_q = no\<rparr> s))
        = stderr s @ [''Warning: Invalid MO number 'abc' provided. Skipping.'']
   \<and> (\<exists>n\<le>2. invocations (snd (main api fs
          \<lparr>arg_mo_numbers = [''123'', ''abc'', ''456''], arg_file = None, arg_debug = d, arg_url = uo, arg_q = no\<rparr> s))
        = invocations s @ map (\<lambda>m. (m, d, uo, no)) (take n [''123'', ''456'']))
   \<and> (fst (main api fs
          \<lparr>arg_mo_numbers = [''123'', ''abc'', ''456''], arg_file = None, arg_debug = d, arg_url = uo, arg_q = no\<rparr> s) = Returned \<longrightarrow>
        invocations (snd (main api fs
          \<lparr>arg_mo_numbers = [''123'', ''abc'', ''456''], arg_file = None, arg_debug = d, arg_url = uo, arg_q = no\<rparr> s))
        = invocations s @ [(''123'', d, uo, no), (''456'', d, uo, no)])"
proof -
  let ?a = "\<lparr>arg_mo_numbers = [''123'', ''abc'', ''456''], arg_file = None, arg_debug = d, arg_url = uo, arg_q = no\<rparr>"
  have ok: "file_ok fs ?a" by (simp add: file_ok_def file_given_def)
  have tk: "tokens fs ?a = [''123'', ''abc'', ''456'']" by (simp add: tokens_def file_given_def)
  have st: "map py_strip [''123'', ''abc'', ''456''] = [''123'', ''abc'', ''456'']"
    by (simp add: py_strip_def isspace_char_def)
  have v: "filter py_isdigit (map py_strip (tokens fs ?a)) = [''123'', ''456'']"
    unfolding tk st by (simp add: py_isdigit_def isdigit_char_def)
  have w: "filter (\<lambda>p. p \<noteq> [] \<and> \<not> list_all isdigit_char p) (map py_strip (tokens fs ?a)) = [''abc'']"
    unfolding tk st by (simp add: isdigit_char_def)
  have 1: "validate toks s =
     (filter (\<lambda>p. p \<noteq> [] \<and> list_all isdigit_char p) (map py_strip toks),
      s\<lparr>stderr := stderr s @
           map (\<lambda>p. ''Warning: Invalid MO number '' @ [CHR 0x27] @ p @ [CHR 0x27] @ '' provided. Skipping.'')
             (filter (\<lambda>p. p \<noteq> [] \<and> \<not> list_all isdigit_char p) (map py_strip toks))\<rparr>)"
    by (simp add: validate_eq isdigit_filter)
  have 2: "file_ok fs a \<longrightarrow>
        stderr (snd (main api fs a s)) = stderr s @
           map (\<lambda>p. ''Warning: Invalid MO number '' @ [CHR 0x27] @ p @ [CHR 0x27] @ '' provided. Skipping.'')
             (filter (\<lambda>p. p \<noteq> [] \<and> \<not> list_all isdigit_char p) (map py_strip (tokens fs a)))"
    using main_stderr by blast
  have 3: "stderr (snd (main api fs ?a s)) = stderr s @ [''Warning: Invalid MO number 'abc' provided. Skipping.'']"
    using main_stderr [OF ok, of api s] unfolding w by simp
  have 4: "\<exists>n\<le>2. invocations (snd (main api fs ?a s)) = invocations s @ map (\<lambda>m. (m, d, uo, no)) (take n [''123'', ''456''])"
    using main_invocations [OF ok, of api s] unfolding v by (simp add: numeral_2_eq_2)
  have 5: "fst (main api fs ?a s) = Returned \<longrightarrow>
        invocations (snd (main api fs ?a s)) = invocations s @ [(''123'', d, uo, no), (''456'', d, uo, no)]"
  proof
    assume r: "fst (main api fs ?a s) = Returned"
    obtain oc s' where m: "main api fs ?a s = (oc, s')" by (cases "main api fs ?a s")
    with ok v have "for_mo_number api [''123'', ''456''] d uo no (snd (validate (tokens fs ?a) s)) = (oc, s')"
      by (simp add: main_file_ok Let_def validate_eq)
    from for_mo_number_frame [OF this] r m
    show "invocations (snd (main api fs ?a s)) = invocations s @ [(''123'', d, uo, no), (''456'', d, uo, no)]"
      by (simp add: validate_eq)
  qed
  from 1 2 3 4 5 show ?thesis by blast
qed

text \<open>Three tokens through \<open>validate\<close>, and the arguments of the repository's test through \<open>main\<close>.\<close>

theorem invalid_tokens_warned_witness:
  "validate [''12a'', '' 456 '', ''x y''] state0
     = ([''456''], state0\<lparr>stderr := [''Warning: Invalid MO number '12a' provided. Skipping.'',
                                     ''Warning: Invalid MO number 'x y' provided. Skipping.'']\<rparr>)
   \<and> stderr (snd (main mock_error mock_files
        \<lparr>arg_mo_numbers = [''123'', ''abc'', ''456''], arg_file = None, arg_debug = False, arg_url = False, arg_q = False\<rparr> state0))
      = [''Warning: Invalid MO number 'abc' provided. Skipping.'']
   \<and> invocations (snd (main mock_error mock_files
        \<lparr>arg_mo_numbers = [''123'', ''abc'', ''456''], arg_file = None, arg_debug = False, arg_url = False, arg_q = False\<rparr> state0))
      = [(''123'', False, False, False), (''456'', False, False, False)]"
proof -
  let ?a = "\<lparr>arg_mo_numbers = [''123'', ''abc'', ''456''], arg_file = None, arg_debug = False, arg_url = False, arg_q = False\<rparr>"
  have r: "fst (main mock_error mock_files ?a state0) = Returned"
    by (simp add: eval_rules)
  note t = invalid_tokens_warned [of "[''12a'', '' 456 '', ''x y'']" state0 mock_files ?a mock_error False False False]
  have e: "filter (\<lambda>p. p \<noteq> [] \<and> list_all isdigit_char p) (map py_strip [''12a'', '' 456 '', ''x y'']) = [''456'']"
     "filter (\<lambda>p. p \<noteq> [] \<and> \<not> list_all isdigit_char p) (map py_strip [''12a'', '' 456 '', ''x y'']) = [''12a'', ''x y'']"
    by (simp_all add: py_strip_def isspace_char_def isdigit_char_def)
  from t [THEN conjunct1] t [THEN conjunct2, THEN conjunct2, THEN conjunct1]
    t [THEN conjunct2, THEN conjunct2, THEN conjunct2, THEN conjunct2, THEN mp, OF r]
  show ?thesis
    unfolding e by (simp add: state0_def)
qed

text \<open>The claim as stated (a warning for every invalid token) fails on a token of two spaces: it is
  empty after stripping, hence invalid, and the \<open>continue\<close> of the source skips it silently.\<close>

theorem blank_token_not_warned:
  "py_strip ''  '' = []
   \<and> validate [''  ''] state0 = ([], state0)
   \<and> stderr (snd (main mock_error mock_files
        \<lparr>arg_mo_numbers = [''  '', ''123''], arg_file = None, arg_debug = False, arg_url = False, arg_q = False\<rparr> state0)) = []
   \<and> invocations (snd (main mock_error mock_files
        \<lparr>arg_mo_numbers = [''  '', ''123''], arg_file = None, arg_debug = False, arg_url = False, arg_q = False\<rparr> state0))
      = [(''123'', False, False, False)]"
  by (simp add: eval_rules)

subsection \<open>C6: exit statuses\<close>

text \<open>
  C6: a file that cannot be read ends the run with status 1 before any request or lookup; so does an
  input without a valid number; with a valid number, and an API whose replies never make a lookup
  raise, \<open>main\<close> returns and the status is 0, in particular when every lookup ends in not-found;
  and the status is 0 exactly when \<open>main\<close> returns, 1 otherwise.
\<close>

theorem exit_statuses:
  "(file_given a = Some path \<and> (\<forall>ls. fs path \<noteq> FileLines ls) \<longrightarrow>
      exit_status (fst (main api fs a s)) = 1
      \<and> calls (snd (main api fs a s)) = calls s \<and> invocations (snd (main api fs a s)) = invocations s)
   \<and> (file_ok fs a \<and> filter py_isdigit (map py_strip (tokens fs a)) = [] \<longrightarrow>
      fst (main api fs a s) = SysExit 1 \<and> exit_status (fst (main api fs a s)) = 1
      \<and> calls (snd (main api fs a s)) = calls s \<and> invocations (snd (main api fs a s)) = invocations s)
   \<and> (file_ok fs a \<and> filter py_isdigit (map py_strip (tokens fs a)) \<noteq> [] \<and> (\<forall>h rq. answers_cleanly (api h rq)) \<longrightarrow>
      fst (main api fs a s) = Returned \<and> exit_status (fst (main api fs a s)) = 0)
   \<and> (file_ok fs a \<and> filter py_isdigit (map py_strip (tokens fs a)) \<noteq> [] \<and> (\<forall>h rq. no_match (api h rq)) \<longrightarrow>
      exit_status (fst (main api fs a s)) = 0
      \<and> stdout (snd (main api fs a s)) = stdout s @ concat (map (\<lambda>m.
          if arg_url a \<or> arg_q a then [''Mushroom Observer #'' @ m @ '' has no iNaturalist observation associated with it.'']
          else [''No iNaturalist observation found for Mushroom Observer #'' @ m, ''''])
          (filter py_isdigit (map py_strip (tokens fs a)))))
   \<and> (exit_status (fst (main api fs a s)) = 0) = (fst (main api fs a s) = Returned)
   \<and> (exit_status (fst (main api fs a s)) = 1) = (fst (main api fs a s) \<noteq> Returned)"
proof (intro conjI impI)
  assume h: "file_given a = Some path \<and> (\<forall>ls. fs path \<noteq> FileLines ls)"
  then show "exit_status (fst (main api fs a s)) = 1" "calls (snd (main api fs a s)) = calls s"
    "invocations (snd (main api fs a s)) = invocations s"
    using main_unreadable [of a path fs api s] by simp_all
next
  assume h: "file_ok fs a \<and> filter py_isdigit (map py_strip (tokens fs a)) = []"
  then show "fst (main api fs a s) = SysExit 1" "exit_status (fst (main api fs a s)) = 1"
    "calls (snd (main api fs a s)) = calls s" "invocations (snd (main api fs a s)) = invocations s"
    by (simp_all add: main_file_ok Let_def)
next
  assume h: "file_ok fs a \<and> filter py_isdigit (map py_strip (tokens fs a)) \<noteq> [] \<and> (\<forall>h rq. answers_cleanly (api h rq))"
  then show r: "fst (main api fs a s) = Returned"
    using for_mo_number_clean [of api] by (simp add: main_file_ok Let_def)
  then show "exit_status (fst (main api fs a s)) = 0" by simp
next
  assume h: "file_ok fs a \<and> filter py_isdigit (map py_strip (tokens fs a)) \<noteq> [] \<and> (\<forall>h rq. no_match (api h rq))"
  then show "exit_status (fst (main api fs a s)) = 0"
    using for_mo_number_not_found [of api] by (simp add: main_file_ok Let_def)
  from h show "stdout (snd (main api fs a s)) = stdout s @ concat (map (\<lambda>m.
          if arg_url a \<or> arg_q a then [''Mushroom Observer #'' @ m @ '' has no iNaturalist observation associated with it.'']
          else [''No iNaturalist observation found for Mushroom Observer #'' @ m, ''''])
          (filter py_isdigit (map py_strip (tokens fs a))))"
    using for_mo_number_not_found [of api] by (simp add: main_file_ok Let_def)
next
  show "(exit_status (fst (main api fs a s)) = 0) = (fst (main api fs a s) = Returned)"
    using main_endings [of api fs a s] by auto
  show "(exit_status (fst (main api fs a s)) = 1) = (fst (main api fs a s) \<noteq> Returned)"
    using main_endings [of api fs a s] by auto
qed

text \<open>A missing file, an input of \<open>abc\<close> alone, and the test's file against an API without results.\<close>

theorem exit_statuses_witness:
  "exit_status (fst (main mock_error mock_files
      \<lparr>arg_mo_numbers = [''123''], arg_file = Some ''missing.txt'', arg_debug = False, arg_url = False, arg_q = False\<rparr> state0)) = 1
   \<and> calls (snd (main mock_error mock_files
      \<lparr>arg_mo_numbers = [''123''], arg_file = Some ''missing.txt'', arg_debug = False, arg_url = False, arg_q = False\<rparr> state0)) = []
   \<and> fst (main mock_error mock_files
      \<lparr>arg_mo_numbers = [''abc''], arg_file = None, arg_debug = False, arg_url = False, arg_q = False\<rparr> state0) = SysExit 1
   \<and> exit_status (fst (main (\<lambda>h rq. Decoded mock_not_found) mock_files
      \<lparr>arg_mo_numbers = [], arg_file = Some ''dummy.txt'', arg_debug = False, arg_url = False, arg_q = False\<rparr> state0)) = 0
   \<and> stdout (snd (main (\<lambda>h rq. Decoded mock_not_found) mock_files
      \<lparr>arg_mo_numbers = [], arg_file = Some ''dummy.txt'', arg_debug = False, arg_url = False, arg_q = False\<rparr> state0))
      = [''No iNaturalist observation found for Mushroom Observer #123'', '''',
         ''No iNaturalist observation found for Mushroom Observer #456'', '''']"
proof -
  let ?a1 = "\<lparr>arg_mo_numbers = [''123''], arg_file = Some ''missing.txt'', arg_debug = False, arg_url = False, arg_q = False\<rparr>"
  let ?a2 = "\<lparr>arg_mo_numbers = [''abc''], arg_file = None, arg_debug = False, arg_url = False, arg_q = False\<rparr>"
  let ?a3 = "\<lparr>arg_mo_numbers = [], arg_file = Some ''dummy.txt'', arg_debug = False, arg_url = False, arg_q = False\<rparr>"
  have h1: "file_given ?a1 = Some ''missing.txt'' \<and> (\<forall>ls. mock_files ''missing.txt'' \<noteq> FileLines ls)"
    by (simp add: file_given_def mock_files_def)
  have h2: "file_ok mock_files ?a2 \<and> filter py_isdigit (map py_strip (tokens mock_files ?a2)) = []"
    by (simp add: eval_rules)
  have h3: "file_ok mock_files ?a3 \<and> filter py_isdigit (map py_strip (tokens mock_files ?a3)) \<noteq> []
      \<and> (\<forall>h rq. no_match ((\<lambda>h rq. Decoded mock_not_found) h rq))"
    by (simp add: eval_rules)
  have v3: "filter py_isdigit (map py_strip (tokens mock_files ?a3)) = [''123'', ''456'']"
    by (simp add: eval_rules)
  from exit_statuses [of ?a1 "''missing.txt''" mock_files mock_error state0, THEN conjunct1, THEN mp, OF h1]
    exit_statuses [of ?a2 "''x''" mock_files mock_error state0, THEN conjunct2, THEN conjunct1, THEN mp, OF h2]
    exit_statuses [of ?a3 "''dummy.txt''" mock_files "\<lambda>h rq. Decoded mock_not_found" state0,
      THEN conjunct2, THEN conjunct2, THEN conjunct2, THEN conjunct1, THEN mp, OF h3]
  show ?thesis
    by (simp add: v3 state0_def)
qed

subsection \<open>C7: both flags\<close>

text \<open>
  C7: when both the URL-only flag and the number-only flag are set, a lookup does exactly what it does
  with the number-only flag alone, and for a matched record with an \<open>id\<close> it prints one line, the
  text of that id: neither the URL nor the default block.
\<close>

theorem number_only_takes_precedence:
  "find_inaturalist_observation api mo d True True s = find_inaturalist_observation api mo d False True s \<and>
   (subscript obs_item ''id'' = Inr obs_id \<longrightarrow>
      format_and_print_observation mo obs_item matched True True s
        = (Inr (), s\<lparr>stdout := stdout s @ [py_str obs_id]\<rparr>))"
  using find_flags_both format_number_only by blast

text \<open>The two flags together, on the reply of the repository's number-only test.\<close>

theorem number_only_takes_precedence_witness:
  "format_and_print_observation ''67890'' (JDict [(''id'', JInt 12345)])
      ''http://mushroomobserver.org/observer/show_observation/67890'' True True state0
     = (Inr (), state0\<lparr>stdout := [''12345'']\<rparr>)
   \<and> find_inaturalist_observation (\<lambda>h rq. Decoded (JDict [(''total_results'', JInt 1), (''results'', JList [JDict [(''id'', JInt 12345)]])]))
        ''67890'' False True True state0
     = find_inaturalist_observation (\<lambda>h rq. Decoded (JDict [(''total_results'', JInt 1), (''results'', JList [JDict [(''id'', JInt 12345)]])]))
        ''67890'' False False True state0"
  using number_only_takes_precedence [of "\<lambda>h rq. Decoded (JDict [(''total_results'', JInt 1), (''results'', JList [JDict [(''id'', JInt 12345)]])])"
     "''67890''" False state0 "JDict [(''id'', JInt 12345)]" "JInt 12345"
     "''http://mushroomobserver.org/observer/show_observation/67890''"]
  by (simp add: py_str_def int_str_def digits_small digits_big digit_char_def state0_def)

subsection \<open>C8: the not-found messages\<close>

text \<open>
  C8: when each of the six candidates fails or reports zero results, the lookup returns normally and
  prints, in URL-only mode and in number-only mode (and with both flags), the same single line
  \<open>Mushroom Observer #N has no iNaturalist observation associated with it.\<close>, and in default mode
  the line \<open>No iNaturalist observation found for Mushroom Observer #N\<close> followed by an empty line.
\<close>

theorem not_found_messages:
  assumes "\<forall>i<6. failed (reply_at api (map fst (calls s)) (mo_urls mo) i)
                 \<or> zero_results (reply_at api (map fst (calls s)) (mo_urls mo) i)"
  shows "(\<forall>uo no. fst (find_inaturalist_observation api mo d uo no s) = Inr ())
    \<and> stdout (snd (find_inaturalist_observation api mo d True False s))
        = stdout s @ [''Mushroom Observer #'' @ mo @ '' has no iNaturalist observation associated with it.'']
    \<and> stdout (snd (find_inaturalist_observation api mo d False True s))
        = stdout s @ [''Mushroom Observer #'' @ mo @ '' has no iNaturalist observation associated with it.'']
    \<and> stdout (snd (find_inaturalist_observation api mo d True True s))
        = stdout s @ [''Mushroom Observer #'' @ mo @ '' has no iNaturalist observation associated with it.'']
    \<and> stdout (snd (find_inaturalist_observation api mo d False False s))
        = stdout s @ [''No iNaturalist observation found for Mushroom Observer #'' @ mo, '''']"
proof -
  from assms have nm: "\<forall>i<6. no_match (reply_at api (map fst (calls s)) (mo_urls mo) i)"
    using failed_no_match zero_results_no_match by blast
  show ?thesis
    using find_not_found(1) [OF nm] find_not_found(3) [OF nm] by simp
qed

text \<open>The reply of the repository's not-found test, in the three modes.\<close>

theorem not_found_messages_witness:
  "find_inaturalist_observation (\<lambda>h rq. Decoded mock_not_found) ''00000'' False False False state0
     = (Inr (), state0\<lparr>calls := map (\<lambda>u. (request_for u, Decoded mock_not_found)) (mo_urls ''00000''),
          stdout := [''No iNaturalist observation found for Mushroom Observer #00000'', '''']\<rparr>)
   \<and> stdout (snd (find_inaturalist_observation (\<lambda>h rq. Decoded mock_not_found) ''00000'' False True False state0))
     = [''Mushroom Observer #00000 has no iNaturalist observation associated with it.'']
   \<and> stdout (snd (find_inaturalist_observation (\<lambda>h rq. Decoded mock_not_found) ''00000'' False False True state0))
     = [''Mushroom Observer #00000 has no iNaturalist observation associated with it.'']"
proof -
  have h: "\<forall>i<6. failed (reply_at (\<lambda>h rq. Decoded mock_not_found) (map fst (calls state0)) (mo_urls ''00000'') i)
                 \<or> zero_results (reply_at (\<lambda>h rq. Decoded mock_not_found) (map fst (calls state0)) (mo_urls ''00000'') i)"
    by (simp add: reply_at_def mock_not_found_def)
  from not_found_messages [OF h, of False] show ?thesis
    by (simp add: eval_rules)
qed

subsection \<open>C9: the default block\<close>

text \<open>
  C9: in default mode, for a matched record (an object with an \<open>id\<close>), the function returns normally
  and prints six lines: the MO number, the iNaturalist URL built from the id, the species guess
  (\<open>N/A\<close> when the field is absent), the place guess (\<open>N/A\<close> when absent), the URL that matched,
  and an empty line.
\<close>

theorem default_block:
  assumes "map_of kvs ''id'' = Some obs_id"
  shows "format_and_print_observation mo (JDict kvs) matched False False s =
    (Inr (), s\<lparr>stdout := stdout s @
       [''Mushroom Observer #'' @ mo @ '':'',
        ''  iNaturalist Observation: https://www.inaturalist.org/observations/'' @ py_str obs_id,
        ''  Species: '' @ (case map_of kvs ''species_guess'' of None \<Rightarrow> ''N/A'' | Some v \<Rightarrow> py_str v),
        ''  Location: '' @ (case map_of kvs ''place_guess'' of None \<Rightarrow> ''N/A'' | Some v \<Rightarrow> py_str v),
        ''  Matched URL: '' @ matched,
        '''']\<rparr>)"
  using assms
  by (simp add: format_and_print_observation_def py_print_def py_str_def split: option.splits)

text \<open>A record without \<open>place_guess\<close>.\<close>

theorem default_block_witness:
  "format_and_print_observation ''67890''
     (JDict [(''id'', JInt 12345), (''species_guess'', JStr ''Amanita muscaria'')])
     ''http://mushroomobserver.org/observer/show_observation/67890'' False False state0 =
    (Inr (), state0\<lparr>stdout :=
       [''Mushroom Observer #67890:'',
        ''  iNaturalist Observation: https://www.inaturalist.org/observations/12345'',
        ''  Species: Amanita muscaria'',
        ''  Location: N/A'',
        ''  Matched URL: http://mushroomobserver.org/observer/show_observation/67890'',
        '''']\<rparr>)"
  using default_block [of "[(''id'', JInt 12345), (''species_guess'', JStr ''Amanita muscaria'')]" "JInt 12345" "''67890''"
     "''http://mushroomobserver.org/observer/show_observation/67890''" state0]
  by (simp add: py_str_def int_str_def digits_small digits_big digit_char_def state0_def)

subsection \<open>C10: the fatal messages go to standard output\<close>

text \<open>
  C10: on each of the three file errors \<open>main\<close> appends its \<open>Error reading file\<close> message to
  standard output and writes nothing to \<open>sys.stderr\<close>; when no valid number remains it appends
  \<open>Error: No valid Mushroom Observer numbers provided.\<close> and the usage line to standard output,
  while \<open>sys.stderr\<close> receives only the warnings for the invalid tokens.
\<close>

theorem fatal_messages_on_stdout:
  "(file_given a = Some path \<and> fs path = FileNotFoundError \<longrightarrow>
      main api fs a s = (SysExit 1,
        s\<lparr>stdout := stdout s @ [''Error reading file '' @ path @ '': FileNotFoundError - File not found.'']\<rparr>))
   \<and> (file_given a = Some path \<and> fs path = PermissionError \<longrightarrow>
      main api fs a s = (SysExit 1,
        s\<lparr>stdout := stdout s @ [''Error reading file '' @ path @ '': PermissionError - Permission denied.'']\<rparr>))
   \<and> (file_given a = Some path \<and> fs path = IOError e \<longrightarrow>
      main api fs a s = (SysExit 1,
        s\<lparr>stdout := stdout s @ [''Error reading file '' @ path @ '': IOError - '' @ e]\<rparr>))
   \<and> (file_ok fs a \<and> filter py_isdigit (map py_strip (tokens fs a)) = [] \<longrightarrow>
      main api fs a s = (SysExit 1,
        s\<lparr>stdout := stdout s @
             [''Error: No valid Mushroom Observer numbers provided.'',
              ''Usage: python script.py [mo_numbers] [--file FILE] [--debug] [--url] [-q]''],
          stderr := stderr s @
             map (\<lambda>p. ''Warning: Invalid MO number '' @ [CHR 0x27] @ p @ [CHR 0x27] @ '' provided. Skipping.'')
               (filter (\<lambda>p. p \<noteq> [] \<and> \<not> list_all isdigit_char p) (map py_strip (tokens fs a)))\<rparr>))"
proof (intro conjI impI)
  assume "file_given a = Some path \<and> fs path = FileNotFoundError"
  then show "main api fs a s = (SysExit 1,
        s\<lparr>stdout := stdout s @ [''Error reading file '' @ path @ '': FileNotFoundError - File not found.'']\<rparr>)"
    using main_file_bad [of a path api fs s] by simp
next
  assume "file_given a = Some path \<and> fs path = PermissionError"
  then show "main api fs a s = (SysExit 1,
        s\<lparr>stdout := stdout s @ [''Error reading file '' @ path @ '': PermissionError - Permission denied.'']\<rparr>)"
    using main_file_bad [of a path api fs s] by simp
next
  assume "file_given a = Some path \<and> fs path = IOError e"
  then show "main api fs a s = (SysExit 1,
        s\<lparr>stdout := stdout s @ [''Error reading file '' @ path @ '': IOError - '' @ e]\<rparr>)"
    using main_file_bad [of a path api fs s] by simp
next
  assume "file_ok fs a \<and> filter py_isdigit (map py_strip (tokens fs a)) = []"
  then show "main api fs a s = (SysExit 1,
        s\<lparr>stdout := stdout s @
             [''Error: No valid Mushroom Observer numbers provided.'',
              ''Usage: python script.py [mo_numbers] [--file FILE] [--debug] [--url] [-q]''],
          stderr := stderr s @
             map (\<lambda>p. ''Warning: Invalid MO number '' @ [CHR 0x27] @ p @ [CHR 0x27] @ '' provided. Skipping.'')
               (filter (\<lambda>p. p \<noteq> [] \<and> \<not> list_all isdigit_char p) (map py_strip (tokens fs a)))\<rparr>)"
    by (simp add: main_file_ok Let_def isdigit_filter(2))
qed

text \<open>A missing file, and an input of \<open>abc\<close> alone.\<close>

theorem fatal_messages_on_stdout_witness:
  "main mock_error mock_files
      \<lparr>arg_mo_numbers = [''123''], arg_file = Some ''missing.txt'', arg_debug = False, arg_url = False, arg_q = False\<rparr> state0
     = (SysExit 1, state0\<lparr>stdout := [''Error reading file missing.txt: FileNotFoundError - File not found.'']\<rparr>)
   \<and> main mock_error mock_files
      \<lparr>arg_mo_numbers = [''abc''], arg_file = None, arg_debug = False, arg_url = False, arg_q = False\<rparr> state0
     = (SysExit 1, state0\<lparr>stdout := [''Error: No valid Mushroom Observer numbers provided.'',
              ''Usage: python script.py [mo_numbers] [--file FILE] [--debug] [--url] [-q]''],
          stderr := [''Warning: Invalid MO number 'abc' provided. Skipping.'']\<rparr>)"
proof -
  let ?a1 = "\<lparr>arg_mo_numbers = [''123''], arg_file = Some ''missing.txt'', arg_debug = False, arg_url = False, arg_q = False\<rparr>"
  let ?a2 = "\<lparr>arg_mo_numbers = [''abc''], arg_file = None, arg_debug = False, arg_url = False, arg_q = False\<rparr>"
  have h1: "file_given ?a1 = Some ''missing.txt'' \<and> mock_files ''missing.txt'' = FileNotFoundError"
    by (simp add: file_given_def mock_files_def)
  have h2: "file_ok mock_files ?a2 \<and> filter py_isdigit (map py_strip (tokens mock_files ?a2)) = []"
    by (simp add: eval_rules)
  have v2: "filter (\<lambda>p. p \<noteq> [] \<and> \<not> list_all isdigit_char p) (map py_strip (tokens mock_files ?a2)) = [''abc'']"
    by (simp add: eval_rules)
  from fatal_messages_on_stdout [of ?a1 "''missing.txt''" mock_files mock_error state0, THEN conjunct1, THEN mp, OF h1]
    fatal_messages_on_stdout [of ?a2 "''x''" mock_files mock_error state0,
      THEN conjunct2, THEN conjunct2, THEN conjunct2, THEN mp, OF h2]
  show ?thesis
    by (simp add: v2 state0_def)
qed

end
